theory Spec2Isabelle
  imports Main
begin

section \<open>Python values used by the programmers\<close>

text \<open>
  The program is Python 3 (\<^verbatim>\<open>main.py\<close> passes \<^verbatim>\<open>allow_abbrev\<close> to argparse,
  \<^verbatim>\<open>jlink.py\<close> passes \<^verbatim>\<open>timeout\<close> to \<^verbatim>\<open>Popen.communicate\<close>, \<^verbatim>\<open>samd21.py\<close>
  calls \<^verbatim>\<open>super()\<close> without arguments). A Python \<^verbatim>\<open>str\<close> is modelled as a
  \<^typ>\<open>string\<close>: a list of characters with code points below 256. Python integers are
  unbounded and are modelled as \<^typ>\<open>int\<close>. An exception that leaves a function is
  the \<open>Inl\<close> branch of its result.
\<close>

datatype py_exception =
    AdaLinkError string
  | TypeError string
  | ValueError string
  | TimeoutError
  | TimeoutExpired

text \<open>\<^verbatim>\<open>s.startswith(p)\<close>.\<close>

fun startswith :: "string \<Rightarrow> string \<Rightarrow> bool" where
  "startswith s [] = True"
| "startswith [] (p # ps) = False"
| "startswith (c # cs) (p # ps) = (c = p \<and> startswith cs ps)"

text \<open>\<^verbatim>\<open>sub in s\<close>, the substring test.\<close>

fun str_contains :: "string \<Rightarrow> string \<Rightarrow> bool" where
  "str_contains sub [] = (sub = [])"
| "str_contains sub (c # cs) = (startswith (c # cs) sub \<or> str_contains sub cs)"

text \<open>\<^verbatim>\<open>sep.join(xs)\<close>.\<close>

fun str_join :: "string \<Rightarrow> string list \<Rightarrow> string" where
  "str_join sep [] = []"
| "str_join sep [x] = x"
| "str_join sep (x # y # ys) = x @ sep @ str_join sep (y # ys)"

text \<open>
  \<^verbatim>\<open>s.splitlines()\<close>: the line boundaries of \<^verbatim>\<open>str.splitlines\<close> below code point
  256 are LF, VT, FF, CR, FS, GS, RS and NEL, and CR LF counts as one boundary. No empty
  last line is produced for a text that ends in a boundary.
\<close>

definition is_linebreak :: "char \<Rightarrow> bool" where
  "is_linebreak c =
     (c \<in> set [CHR 0x0A, CHR 0x0B, CHR 0x0C, CHR 0x0D, CHR 0x1C, CHR 0x1D, CHR 0x1E, CHR 0x85])"

fun splitlines_from :: "string \<Rightarrow> string \<Rightarrow> string list" where
  "splitlines_from cur [] = (if cur = [] then [] else [cur])"
| "splitlines_from cur [c] = (if is_linebreak c then [cur] else [cur @ [c]])"
| "splitlines_from cur (c # d # cs) =
     (if c = CHR 0x0D \<and> d = CHR 0x0A then cur # splitlines_from [] cs
      else if is_linebreak c then cur # splitlines_from [] (d # cs)
      else splitlines_from (cur @ [c]) (d # cs))"

definition splitlines :: "string \<Rightarrow> string list" where
  "splitlines s = splitlines_from [] s"

text \<open>
  The built-ins \<^verbatim>\<open>filter\<close> and \<^verbatim>\<open>len\<close>. In Python 3 \<^verbatim>\<open>filter(p, xs)\<close> is a lazy
  filter object, not a list; \<^verbatim>\<open>len\<close> of a list is its length, and \<^verbatim>\<open>len\<close> of a
  filter object raises \<^verbatim>\<open>TypeError\<close>.
\<close>

datatype 'a py_iterable = PyList "'a list" | PyFilter "'a list"

definition py_filter :: "('a \<Rightarrow> bool) \<Rightarrow> 'a list \<Rightarrow> 'a py_iterable" where
  "py_filter p xs = PyFilter (filter p xs)"

fun py_len :: "'a py_iterable \<Rightarrow> py_exception + nat" where
  "py_len (PyList xs) = Inr (length xs)"
| \<open>py_len (PyFilter xs) = Inl (TypeError ''object of type 'filter' has no len()'')\<close>

subsection \<open>Formatting integers\<close>

definition hex_char :: "nat \<Rightarrow> char" where
  "hex_char n = ''0123456789ABCDEF'' ! (n mod 16)"

fun hex_digits :: "nat \<Rightarrow> string" where
  "hex_digits n = (if n < 16 then [hex_char n] else hex_digits (n div 16) @ [hex_char (n mod 16)])"

declare hex_digits.simps [simp del]

text \<open>
  \<^verbatim>\<open>'{0:08X}'.format(n)\<close>: upper-case hexadecimal, the sign first when \<open>n\<close> is
  negative, then zeros up to a total width of 8; a longer number is not cut.
\<close>

definition fmt_08X :: "int \<Rightarrow> string" where
  "fmt_08X n =
     (let sign = (if n < 0 then ''-'' else '''');
          digits = hex_digits (nat \<bar>n\<bar>)
      in sign @ replicate (8 - length sign - length digits) (CHR ''0'') @ digits)"

text \<open>\<^verbatim>\<open>'{0:0X}'.format(n)\<close>: no width is given, so nothing is padded.\<close>

definition fmt_0X :: "int \<Rightarrow> string" where
  "fmt_0X n = (if n < 0 then ''-'' else '''') @ hex_digits (nat \<bar>n\<bar>)"

section \<open>The OpenOCD programmers of the SAMD21 cores\<close>

text \<open>
  \<^verbatim>\<open>for x in xs: commands.append(body(x))\<close>: the loop that every script builder
  uses, with the list under construction passed along.
\<close>

fun for_append :: "('a \<Rightarrow> string) \<Rightarrow> string list \<Rightarrow> 'a list \<Rightarrow> string list" where
  "for_append body commands [] = commands"
| "for_append body commands (x # xs) = for_append body (commands @ [body x]) xs"

text \<open>
  \<^verbatim>\<open>STLink_SAMD21.program\<close>, lines 74 to 95 of \<^verbatim>\<open>cores/samd21.py\<close>: the command list.
  \<^verbatim>\<open>self.escape_path\<close> is inherited from a base class whose file is not part of the
  sources, and \<^verbatim>\<open>os.path.abspath\<close> depends on the host and its working directory;
  both are parameters of the model.
\<close>

definition STLink_SAMD21_program_commands ::
  "(string \<Rightarrow> string) \<Rightarrow> (string \<Rightarrow> string) \<Rightarrow> string list \<Rightarrow> (string \<times> int) list \<Rightarrow> string list"
where
  "STLink_SAMD21_program_commands escape_path abspath hex_files bin_files =
     (let commands = [''init'', ''reset init''];
          commands = for_append
            (\<lambda>f. ''load_image '' @ escape_path (abspath f) @ '' 0 ihex'') commands hex_files;
          commands = for_append
            (\<lambda>(f, addr). ''load_image '' @ escape_path (abspath f) @ '' 0x'' @ fmt_08X addr @ '' bin'')
            commands bin_files;
          commands = for_append
            (\<lambda>f. ''verify_image '' @ escape_path (abspath f) @ '' 0 ihex'') commands hex_files;
          commands = for_append
            (\<lambda>(f, addr). ''verify_image '' @ escape_path (abspath f) @ '' 0x'' @ fmt_08X addr @ '' bin'')
            commands bin_files;
          commands = commands @ [''reset run''];
          commands = commands @ [''exit'']
      in commands)"

text \<open>
  Lines 102 to 104: the check of the captured output. \<open>verified_lines\<close> holds the items
  the filter object of line 102 would yield; \<open>verify_check\<close> is the comparison and the
  raise of lines 103 and 104, given the count.
\<close>

definition verified_lines :: "string \<Rightarrow> string list" where
  "verified_lines output = filter (\<lambda>x. startswith x ''verified '') (splitlines output)"

definition verify_check :: "nat \<Rightarrow> string list \<Rightarrow> (string \<times> int) list \<Rightarrow> py_exception + unit" where
  "verify_check verified hex_files bin_files =
     (if verified \<noteq> length hex_files + length bin_files
      then Inl (AdaLinkError ''Failed to verify all files were programmed!'')
      else Inr ())"

text \<open>
  \<^verbatim>\<open>STLink_SAMD21.program\<close> as a whole. \<^verbatim>\<open>self.run_commands\<close> runs OpenOCD and returns
  its captured output or raises; its file is not part of the sources, so it is a
  parameter. The warning the method prints first is not part of its result.
\<close>

definition STLink_SAMD21_program ::
  "(string list \<Rightarrow> py_exception + string) \<Rightarrow> (string \<Rightarrow> string) \<Rightarrow> (string \<Rightarrow> string) \<Rightarrow>
     string list \<Rightarrow> (string \<times> int) list \<Rightarrow> py_exception + unit"
where
  "STLink_SAMD21_program run_commands escape_path abspath hex_files bin_files =
     (case run_commands (STLink_SAMD21_program_commands escape_path abspath hex_files bin_files) of
        Inl e \<Rightarrow> Inl e
      | Inr output \<Rightarrow>
          (case py_len (py_filter (\<lambda>x. startswith x ''verified '') (splitlines output)) of
             Inl e \<Rightarrow> Inl e
           | Inr verified \<Rightarrow> verify_check verified hex_files bin_files))"

text \<open>
  The bodies of \<^verbatim>\<open>RasPi2_SAMD21.program\<close>, \<^verbatim>\<open>STLink_ATSAMD21G18.program\<close> and
  \<^verbatim>\<open>RasPi2_ATSAMD21G18.program\<close> repeat the one above line for line; the classes differ
  in the parameters their constructors pass to OpenOCD.
\<close>

definition RasPi2_SAMD21_program_commands ::
  "(string \<Rightarrow> string) \<Rightarrow> (string \<Rightarrow> string) \<Rightarrow> string list \<Rightarrow> (string \<times> int) list \<Rightarrow> string list"
where
  "RasPi2_SAMD21_program_commands = STLink_SAMD21_program_commands"

definition STLink_ATSAMD21G18_program_commands ::
  "(string \<Rightarrow> string) \<Rightarrow> (string \<Rightarrow> string) \<Rightarrow> string list \<Rightarrow> (string \<times> int) list \<Rightarrow> string list"
where
  "STLink_ATSAMD21G18_program_commands = STLink_SAMD21_program_commands"

definition RasPi2_ATSAMD21G18_program_commands ::
  "(string \<Rightarrow> string) \<Rightarrow> (string \<Rightarrow> string) \<Rightarrow> string list \<Rightarrow> (string \<times> int) list \<Rightarrow> string list"
where
  "RasPi2_ATSAMD21G18_program_commands = STLink_SAMD21_program_commands"

definition RasPi2_ATSAMD21G18_program ::
  "(string list \<Rightarrow> py_exception + string) \<Rightarrow> (string \<Rightarrow> string) \<Rightarrow> (string \<Rightarrow> string) \<Rightarrow>
     string list \<Rightarrow> (string \<times> int) list \<Rightarrow> py_exception + unit"
where
  "RasPi2_ATSAMD21G18_program = STLink_SAMD21_program"

text \<open>
  The words by which a command of an OpenOCD script is recognised as a load or a verify
  command.
\<close>

definition is_load_image :: "string \<Rightarrow> bool" where
  "is_load_image c = startswith c ''load_image ''"

definition is_verify_image :: "string \<Rightarrow> bool" where
  "is_verify_image c = startswith c ''verify_image ''"

section \<open>The JLink programmer\<close>

subsection \<open>Running JLinkExe\<close>

text \<open>
  What a spawned JLinkExe does is given by the environment: the text it writes to the
  merged output and the seconds it needs before it exits. \<^verbatim>\<open>Popen.communicate\<close> with
  \<^verbatim>\<open>timeout=None\<close> waits for the exit; with a bound it returns the output when the
  child exits within the bound and raises \<^verbatim>\<open>subprocess.TimeoutExpired\<close> otherwise,
  leaving the child running (the library does not kill it). \<^verbatim>\<open>TimeoutExpired\<close> derives
  from \<^verbatim>\<open>SubprocessError\<close>; the built-in \<^verbatim>\<open>TimeoutError\<close> derives from \<^verbatim>\<open>OSError\<close> and
  is a different class.
\<close>

record process =
  proc_output :: string
  proc_duration :: nat

datatype proc_status = Running | Exited

definition communicate :: "process \<Rightarrow> int option \<Rightarrow> (py_exception + string) \<times> proc_status" where
  "communicate p timeout =
     (case timeout of
        None \<Rightarrow> (Inr (proc_output p), Exited)
      | Some t \<Rightarrow>
          if t < int (proc_duration p) then (Inl TimeoutExpired, Running)
          else (Inr (proc_output p), Exited))"

text \<open>
  A \<^verbatim>\<open>JLink\<close> instance: the text it looks for after \<^verbatim>\<open>Found\<close>, and what JLinkExe,
  started with the instance's path and parameters, does with a script.
\<close>

record jlink =
  connected :: string
  jlink_exe :: "string \<Rightarrow> process"

text \<open>
  \<^verbatim>\<open>JLink.run_filename\<close>. The model passes the content of the script file where the
  source passes its name. The result is paired with the state of the child when the
  method is left: the method calls \<^verbatim>\<open>Popen\<close> and \<^verbatim>\<open>communicate\<close> on it and nothing else.
  The \<^verbatim>\<open>except\<close> clause names the built-in \<^verbatim>\<open>TimeoutError\<close>.
\<close>

definition JLink_run_filename ::
  "jlink \<Rightarrow> string \<Rightarrow> int option \<Rightarrow> (py_exception + string) \<times> proc_status"
where
  "JLink_run_filename self script timeout_sec =
     (let process = jlink_exe self script
      in case communicate process timeout_sec of
           (Inl TimeoutError, st) \<Rightarrow> (Inl (AdaLinkError ''JLink process exceeded timeout!''), st)
         | (Inl e, st) \<Rightarrow> (Inl e, st)
         | (Inr output, st) \<Rightarrow> (Inr output, st))"

text \<open>\<^verbatim>\<open>JLink.run_commands\<close>: the commands joined by newlines are the script.\<close>

definition JLink_run_commands :: "jlink \<Rightarrow> string list \<Rightarrow> int option \<Rightarrow> py_exception + string" where
  "JLink_run_commands self commands timeout_sec =
     (let commands = str_join [CHR 0x0A] commands
      in fst (JLink_run_filename self commands timeout_sec))"

text \<open>
  For examples: a \<^verbatim>\<open>JLink\<close> instance that looks for the Cortex-M0 of the SAMD21 and whose
  JLinkExe answers every script with the same text, within a second.
\<close>

definition fixed_output_jlink :: "string \<Rightarrow> jlink" where
  "fixed_output_jlink answer =
     \<lparr>connected = ''Cortex-M0 r0p1, Little endian'',
      jlink_exe = (\<lambda>script. \<lparr>proc_output = answer, proc_duration = 1\<rparr>)\<rparr>"


subsection \<open>Reading memory\<close>

text \<open>
  \<^verbatim>\<open>int(s, 16)\<close> on a text without white space: an optional sign, an optional
  \<^verbatim>\<open>0x\<close> or \<^verbatim>\<open>0X\<close> that one underscore may follow, then hexadecimal digits of either
  case with single underscores between digits. Anything else raises \<^verbatim>\<open>ValueError\<close>,
  here \<open>None\<close>.
\<close>

definition hex_digit_value :: "char \<Rightarrow> nat option" where
  "hex_digit_value c =
     (let n = (of_char c :: nat)
      in if 48 \<le> n \<and> n \<le> 57 then Some (n - 48)
         else if 97 \<le> n \<and> n \<le> 102 then Some (n - 87)
         else if 65 \<le> n \<and> n \<le> 70 then Some (n - 55)
         else None)"

fun hex_body :: "nat \<Rightarrow> string \<Rightarrow> nat option" where
  "hex_body acc [] = Some acc"
| "hex_body acc [c] =
     (case hex_digit_value c of None \<Rightarrow> None | Some v \<Rightarrow> Some (16 * acc + v))"
| "hex_body acc (c # d # ds) =
     (if c = CHR ''_''
      then (case hex_digit_value d of None \<Rightarrow> None | Some v \<Rightarrow> hex_body (16 * acc + v) ds)
      else (case hex_digit_value c of None \<Rightarrow> None | Some v \<Rightarrow> hex_body (16 * acc + v) (d # ds)))"

definition hex_number :: "string \<Rightarrow> nat option" where
  "hex_number s =
     (case s of
        [] \<Rightarrow> None
      | c # cs \<Rightarrow> (case hex_digit_value c of None \<Rightarrow> None | Some v \<Rightarrow> hex_body v cs))"

definition strip_hex_prefix :: "string \<Rightarrow> string" where
  "strip_hex_prefix s =
     (if startswith s ''0x'' \<or> startswith s ''0X''
      then (if startswith (drop 2 s) ''_'' then drop 3 s else drop 2 s)
      else s)"

definition py_int16 :: "string \<Rightarrow> int option" where
  "py_int16 s =
     (if startswith s ''-''
      then map_option (\<lambda>n. - int n) (hex_number (strip_hex_prefix (drop 1 s)))
      else if startswith s ''+''
      then map_option int (hex_number (strip_hex_prefix (drop 1 s)))
      else map_option int (hex_number (strip_hex_prefix s)))"

text \<open>
  The reading of a text of hexadecimal digits as a number, stated without the parser:
  the digits weighted by powers of sixteen.
\<close>

definition is_hex_digit :: "char \<Rightarrow> bool" where
  "is_hex_digit c = (hex_digit_value c \<noteq> None)"

definition hex_value :: "string \<Rightarrow> nat" where
  "hex_value s =
     foldl (\<lambda>acc c. 16 * acc + (case hex_digit_value c of Some v \<Rightarrow> v | None \<Rightarrow> 0)) 0 s"


text \<open>
  The search of line 140, \<^verbatim>\<open>re.search('^ADDRESS = (\S+)', output, re.IGNORECASE | re.MULTILINE)\<close>.
  With \<^verbatim>\<open>MULTILINE\<close> the anchor holds at the start of the text and after every LF. The
  formatted address holds hexadecimal digits and at most a sign, none of them special in
  a pattern; \<^verbatim>\<open>IGNORECASE\<close> makes its letters match either case. \<open>match_literal\<close>
  matches the address and \<^verbatim>\<open> = \<close> character by character and gives the text that
  follows. \<^verbatim>\<open>\S+\<close> takes the longest run of characters that are not white space. The
  first match from the left is the result; its group is returned.
\<close>

definition is_space :: "char \<Rightarrow> bool" where
  "is_space c =
     (c \<in> set [CHR 0x09, CHR 0x0A, CHR 0x0B, CHR 0x0C, CHR 0x0D, CHR 0x1C, CHR 0x1D, CHR 0x1E,
               CHR 0x1F, CHR 0x20, CHR 0x85, CHR 0xA0])"

definition ascii_lower :: "char \<Rightarrow> char" where
  "ascii_lower c =
     (case map_of (zip ''ABCDEFGHIJKLMNOPQRSTUVWXYZ'' ''abcdefghijklmnopqrstuvwxyz'') c of
        Some l \<Rightarrow> l
      | None \<Rightarrow> c)"

fun match_literal :: "string \<Rightarrow> string \<Rightarrow> string option" where
  "match_literal [] s = Some s"
| "match_literal (p # ps) [] = None"
| "match_literal (p # ps) (c # cs) =
     (if ascii_lower c = ascii_lower p then match_literal ps cs else None)"

definition match_readmem :: "string \<Rightarrow> string \<Rightarrow> string option" where
  "match_readmem address s =
     (case match_literal (address @ '' = '') s of
        None \<Rightarrow> None
      | Some rest \<Rightarrow>
          (let token = takeWhile (\<lambda>c. \<not> is_space c) rest
           in if token \<noteq> [] then Some token else None))"

fun search_readmem :: "bool \<Rightarrow> string \<Rightarrow> string \<Rightarrow> string option" where
  "search_readmem at_line_start address [] = None"
| "search_readmem at_line_start address (c # cs) =
     (case (if at_line_start then match_readmem address (c # cs) else None) of
        Some token \<Rightarrow> Some token
      | None \<Rightarrow> search_readmem (c = CHR 0x0A) address cs)"

text \<open>
  Lines 140 to 145 of \<^verbatim>\<open>JLink._readmem\<close>: from the captured output to the value
  returned or the exception raised.
\<close>

definition readmem_parse :: "string \<Rightarrow> string \<Rightarrow> py_exception + int" where
  "readmem_parse address output =
     (case search_readmem True address output of
        Some token \<Rightarrow>
          (case py_int16 token of
             Some v \<Rightarrow> Inr v
           | None \<Rightarrow> Inl (ValueError (''invalid literal for int() with base 16: '' @ token)))
      | None \<Rightarrow>
          Inl (AdaLinkError
            ''Could not find expected memory value, are the JLink and board connected?''))"

text \<open>\<^verbatim>\<open>JLink._readmem\<close>; \<^verbatim>\<open>run_commands\<close> is called with its default timeout of 60.\<close>

definition JLink_readmem :: "jlink \<Rightarrow> int \<Rightarrow> string \<Rightarrow> py_exception + int" where
  "JLink_readmem self address command =
     (let address = fmt_08X address;
          commands = [command @ '' '' @ address @ '' 1'', ''q'']
      in case JLink_run_commands self commands (Some 60) of
           Inl e \<Rightarrow> Inl e
         | Inr output \<Rightarrow> readmem_parse address output)"

definition JLink_readmem32 :: "jlink \<Rightarrow> int \<Rightarrow> py_exception + int" where
  "JLink_readmem32 self address = JLink_readmem self address ''mem32''"


definition JLink_readmem8 :: "jlink \<Rightarrow> int \<Rightarrow> py_exception + int" where
  "JLink_readmem8 self address = JLink_readmem self address ''mem8''"

subsection \<open>The connection check\<close>

text \<open>
  \<^verbatim>\<open>re.search(r'VTref=([0-9.]+)V', output)\<close>: at the first position from the left
  where \<^verbatim>\<open>VTref=\<close> is followed by a non-empty run of digits and dots and then by
  \<^verbatim>\<open>V\<close>. The run is taken as long as possible; a shorter one could not be followed by
  \<^verbatim>\<open>V\<close>.
\<close>

definition is_digit :: "char \<Rightarrow> bool" where
  "is_digit c = (let n = (of_char c :: nat) in 48 \<le> n \<and> n \<le> 57)"

definition is_voltage_char :: "char \<Rightarrow> bool" where
  "is_voltage_char c = (is_digit c \<or> c = CHR ''.'')"

definition match_vtref :: "string \<Rightarrow> string option" where
  "match_vtref s =
     (let reading = takeWhile is_voltage_char (drop 6 s);
          rest = dropWhile is_voltage_char (drop 6 s)
      in if startswith s ''VTref='' \<and> reading \<noteq> [] \<and> startswith rest ''V''
         then Some reading else None)"

fun search_vtref :: "string \<Rightarrow> string option" where
  "search_vtref [] = None"
| "search_vtref (c # cs) =
     (case match_vtref (c # cs) of Some reading \<Rightarrow> Some reading | None \<Rightarrow> search_vtref cs)"

text \<open>
  \<^verbatim>\<open>float(ref_voltage) < 1\<close> for a text of digits and dots. \<^verbatim>\<open>float\<close> accepts such a
  text when it has at most one dot and at least one digit, and raises \<^verbatim>\<open>ValueError\<close>
  otherwise. \<open>decimal_of\<close> gives the number read as a pair \<open>(n, k)\<close> that stands for
  \<open>n / 10 ^ k\<close>. \<^verbatim>\<open>float\<close> rounds to the nearest double, ties to even; the doubles next
  to one are \<open>1 - 2 ^ -53\<close> and \<open>1\<close>, and the tie between them rounds to \<open>1\<close>, so the
  rounded number is below one exactly when \<open>n / 10 ^ k < 1 - 2 ^ -54\<close>.
\<close>

fun decimal_value :: "nat \<Rightarrow> string \<Rightarrow> nat" where
  "decimal_value acc [] = acc"
| "decimal_value acc (c # cs) = decimal_value (10 * acc + (of_char c - 48)) cs"

definition decimal_of :: "string \<Rightarrow> (nat \<times> nat) option" where
  "decimal_of s =
     (let whole = takeWhile is_digit s;
          rest = dropWhile is_digit s
      in if rest = [] then (if whole = [] then None else Some (decimal_value 0 whole, 0))
         else if hd rest = CHR ''.'' \<and> list_all is_digit (tl rest) \<and> (whole \<noteq> [] \<or> tl rest \<noteq> [])
         then Some (decimal_value 0 (whole @ tl rest), length (tl rest))
         else None)"

definition float_below_one :: "nat \<times> nat \<Rightarrow> bool" where
  "float_below_one d = (case d of (n, k) \<Rightarrow> n * 2 ^ 54 < (2 ^ 54 - 1) * 10 ^ k)"

text \<open>
  Lines 151 to 164 of \<^verbatim>\<open>JLink.is_connected\<close>: from the captured output to the value
  returned or the exception raised.
\<close>

definition is_connected_check :: "string \<Rightarrow> string \<Rightarrow> py_exception + bool" where
  "is_connected_check connected_to output =
     (if str_contains ''FAILED'' output
      then Inl (AdaLinkError ''Could not find a JLink programmer, is it connected?'')
      else case search_vtref output of
        None \<Rightarrow> Inl (AdaLinkError ''JLink output lacks voltage information'')
      | Some ref_voltage \<Rightarrow>
          (case decimal_of ref_voltage of
             None \<Rightarrow> Inl (ValueError (''could not convert string to float: '' @ ref_voltage))
           | Some d \<Rightarrow>
               if float_below_one d
               then Inl (AdaLinkError
                 (''JLink reference voltage is '' @ ref_voltage @ ''V, it the chip powered?''))
               else Inr (str_contains (''Found '' @ connected_to) output)))"

definition JLink_is_connected :: "jlink \<Rightarrow> py_exception + bool" where
  "JLink_is_connected self =
     (case JLink_run_commands self [''connect'', ''q''] (Some 60) of
        Inl e \<Rightarrow> Inl e
      | Inr output \<Rightarrow> is_connected_check (connected self) output)"

subsection \<open>Wiping and programming\<close>

definition JLink_wipe :: "jlink \<Rightarrow> py_exception + unit" where
  "JLink_wipe self =
     (let commands = [''r'', ''erase'', ''r'', ''q'']
      in case JLink_run_commands self commands (Some 60) of Inl e \<Rightarrow> Inl e | Inr output \<Rightarrow> Inr ())"

text \<open>\<^verbatim>\<open>JLink.program\<close>, lines 186 to 199: the command list.\<close>

definition JLink_program_commands ::
  "(string \<Rightarrow> string) \<Rightarrow> string list \<Rightarrow> (string \<times> int) list \<Rightarrow> string list"
where
  \<open>JLink_program_commands abspath hex_files bin_files =
     (let commands = [''r''];
          commands = for_append (\<lambda>f. ''loadfile "'' @ abspath f @ ''"'') commands hex_files;
          commands = for_append
            (\<lambda>(f, addr). ''loadbin "'' @ abspath f @ ''" 0x'' @ fmt_08X addr) commands bin_files;
          commands = commands @ [''r'', ''g'', ''q'']
      in commands)\<close>

definition JLink_program ::
  "jlink \<Rightarrow> (string \<Rightarrow> string) \<Rightarrow> string list \<Rightarrow> (string \<times> int) list \<Rightarrow> py_exception + unit"
where
  "JLink_program self abspath hex_files bin_files =
     (case JLink_run_commands self (JLink_program_commands abspath hex_files bin_files) (Some 60) of
        Inl e \<Rightarrow> Inl e
      | Inr output \<Rightarrow> Inr ())"

text \<open>
  The words by which a command of a JLink script is recognised as a load or a verify
  command.
\<close>

definition is_jlink_load :: "string \<Rightarrow> bool" where
  "is_jlink_load c = (startswith c ''loadfile '' \<or> startswith c ''loadbin '')"

definition is_jlink_verify :: "string \<Rightarrow> bool" where
  "is_jlink_verify c = startswith c ''verify''"

section \<open>The core callback and the entry point\<close>

text \<open>
  The effects of \<^verbatim>\<open>Core._callback\<close> are calls on the programmer and the core and lines
  printed. A computation takes the calls made so far and returns its result with the
  calls extended. How the programmer and the core answer a call is given by the
  environment as a function of the calls made up to and including that call.
\<close>

datatype call =
    CreateProgrammer string
  | IsConnected
  | Wipe
  | Program "string list" "(string \<times> int) list"
  | Info
  | Readmem8 int
  | Readmem16 int
  | Readmem32 int
  | Print string
  | PrintHelp

type_synonym 'a action = "call list \<Rightarrow> (py_exception + 'a) \<times> call list"

definition returns :: "'a \<Rightarrow> 'a action" where
  "returns x calls = (Inr x, calls)"

definition raises :: "py_exception \<Rightarrow> 'a action" where
  "raises e calls = (Inl e, calls)"

definition and_then :: "'a action \<Rightarrow> ('a \<Rightarrow> 'b action) \<Rightarrow> 'b action" where
  "and_then m f calls =
     (case m calls of (Inl e, calls') \<Rightarrow> (Inl e, calls') | (Inr x, calls') \<Rightarrow> f x calls')"

definition invoke :: "call \<Rightarrow> (call list \<Rightarrow> py_exception + 'a) \<Rightarrow> 'a action" where
  "invoke c answer calls = (answer (calls @ [c]), calls @ [c])"

definition print :: "string \<Rightarrow> unit action" where
  "print line = invoke (Print line) (\<lambda>calls. Inr ())"

record device =
  create_programmer :: "call list \<Rightarrow> py_exception + unit"
  is_connected :: "call list \<Rightarrow> py_exception + bool"
  wipe_flash :: "call list \<Rightarrow> py_exception + unit"
  program :: "call list \<Rightarrow> py_exception + unit"
  info_report :: "call list \<Rightarrow> py_exception + unit"
  readmem8 :: "call list \<Rightarrow> py_exception + int"
  readmem16 :: "call list \<Rightarrow> py_exception + int"
  readmem32 :: "call list \<Rightarrow> py_exception + int"

text \<open>The namespace of parsed arguments that argparse hands to the callback.\<close>

record args =
  programmer :: string
  wipe :: bool
  info :: bool
  program_hex :: "string list option"
  program_bin :: "(string \<times> int) list option"
  read_mem_8 :: "int option"
  read_mem_16 :: "int option"
  read_mem_32 :: "int option"

text \<open>
  \<^verbatim>\<open>Core._callback\<close>, lines 50 to 82 of \<^verbatim>\<open>core.py\<close>; \<open>name\<close> is \<^verbatim>\<open>self.name\<close>.
  \<^verbatim>\<open>self.info\<close> is the method a core overrides; what it does is one call here.
  \<open>or_empty\<close> is \<^verbatim>\<open>[] if x is None else x\<close>.
\<close>

definition or_empty :: "'a list option \<Rightarrow> 'a list" where
  "or_empty files = (case files of None \<Rightarrow> [] | Some given \<Rightarrow> given)"

definition Core_callback :: "string \<Rightarrow> device \<Rightarrow> args \<Rightarrow> unit action" where
  "Core_callback name dev a =
     and_then (invoke (CreateProgrammer (programmer a)) (create_programmer dev)) (\<lambda>_.
     and_then (invoke IsConnected (is_connected dev)) (\<lambda>found.
     and_then (if \<not> found
               then raises (AdaLinkError (''Could not find '' @ name @ '', is it connected?''))
               else returns ()) (\<lambda>_.
     and_then (if wipe a then invoke Wipe (wipe_flash dev) else returns ()) (\<lambda>_.
     let program_hex = or_empty (program_hex a);
         program_bin = or_empty (program_bin a)
     in
     and_then (if length program_hex > 0 \<or> length program_bin > 0
               then invoke (Program program_hex program_bin) (program dev)
               else returns ()) (\<lambda>_.
     and_then (if info a then invoke Info (info_report dev) else returns ()) (\<lambda>_.
     let f = filter (\<lambda>x. x \<noteq> None) [read_mem_8 a, read_mem_16 a, read_mem_32 a]
     in
     and_then (if length f > 1
               then raises (AdaLinkError
                 ''Only one read memory command can be specified at a time.'')
               else returns ()) (\<lambda>_.
     and_then (case read_mem_8 a of
                 None \<Rightarrow> returns ()
               | Some address \<Rightarrow>
                   and_then (invoke (Readmem8 address) (readmem8 dev)) (\<lambda>v.
                   print (''0x'' @ fmt_0X v))) (\<lambda>_.
     and_then (case read_mem_16 a of
                 None \<Rightarrow> returns ()
               | Some address \<Rightarrow>
                   and_then (invoke (Readmem16 address) (readmem16 dev)) (\<lambda>v.
                   print (''0x'' @ fmt_0X v))) (\<lambda>_.
     (case read_mem_32 a of
        None \<Rightarrow> returns ()
      | Some address \<Rightarrow>
          and_then (invoke (Readmem32 address) (readmem32 dev)) (\<lambda>v.
          print (''0x'' @ fmt_0X v))))))))))))"

text \<open>
  The two parts of the callback on their own: lines 51 to 67, up to the info report, and
  lines 68 to 82, from the check of the read options on. \<open>Core_callback\<close> is the first
  followed by the second.
\<close>

definition callback_steps :: "string \<Rightarrow> device \<Rightarrow> args \<Rightarrow> unit action" where
  "callback_steps name dev a =
     and_then (invoke (CreateProgrammer (programmer a)) (create_programmer dev)) (\<lambda>_.
     and_then (invoke IsConnected (is_connected dev)) (\<lambda>found.
     and_then (if \<not> found
               then raises (AdaLinkError (''Could not find '' @ name @ '', is it connected?''))
               else returns ()) (\<lambda>_.
     and_then (if wipe a then invoke Wipe (wipe_flash dev) else returns ()) (\<lambda>_.
     let program_hex = or_empty (program_hex a);
         program_bin = or_empty (program_bin a)
     in
     and_then (if length program_hex > 0 \<or> length program_bin > 0
               then invoke (Program program_hex program_bin) (program dev)
               else returns ()) (\<lambda>_.
     (if info a then invoke Info (info_report dev) else returns ()))))))"

definition callback_reads :: "device \<Rightarrow> args \<Rightarrow> unit action" where
  "callback_reads dev a =
     (let f = filter (\<lambda>x. x \<noteq> None) [read_mem_8 a, read_mem_16 a, read_mem_32 a]
      in
      and_then (if length f > 1
                then raises (AdaLinkError
                  ''Only one read memory command can be specified at a time.'')
                else returns ()) (\<lambda>_.
      and_then (case read_mem_8 a of
                  None \<Rightarrow> returns ()
                | Some address \<Rightarrow>
                    and_then (invoke (Readmem8 address) (readmem8 dev)) (\<lambda>v.
                    print (''0x'' @ fmt_0X v))) (\<lambda>_.
      and_then (case read_mem_16 a of
                  None \<Rightarrow> returns ()
                | Some address \<Rightarrow>
                    and_then (invoke (Readmem16 address) (readmem16 dev)) (\<lambda>v.
                    print (''0x'' @ fmt_0X v))) (\<lambda>_.
      (case read_mem_32 a of
         None \<Rightarrow> returns ()
       | Some address \<Rightarrow>
           and_then (invoke (Readmem32 address) (readmem32 dev)) (\<lambda>v.
           print (''0x'' @ fmt_0X v)))))))"


text \<open>The calls that read memory for a read option of the command line.\<close>

fun is_readmem :: "call \<Rightarrow> bool" where
  "is_readmem (Readmem8 address) = True"
| "is_readmem (Readmem16 address) = True"
| "is_readmem (Readmem32 address) = True"
| "is_readmem c = False"

text \<open>
  \<^verbatim>\<open>main\<close>, lines 56 to 63 of \<^verbatim>\<open>main.py\<close>, after the arguments are parsed. \<open>func\<close> is
  \<^verbatim>\<open>args.func(args)\<close> when a core was named on the command line and \<open>None\<close> otherwise.
  \<^verbatim>\<open>print(e)\<close> prints the message the exception was made with.
\<close>

definition main :: "unit action option \<Rightarrow> unit action" where
  "main func calls =
     (case func of
        Some callback \<Rightarrow>
          (case callback calls of
             (Inl (AdaLinkError message), calls') \<Rightarrow> print message calls'
           | (Inl e, calls') \<Rightarrow> (Inl e, calls')
           | (Inr u, calls') \<Rightarrow> (Inr (), calls'))
      | None \<Rightarrow> invoke PrintHelp (\<lambda>calls. Inr ()) calls)"

text \<open>
  The exit status of the interpreter: zero when \<^verbatim>\<open>main\<close> returns, since it returns
  \<^verbatim>\<open>None\<close> and calls \<^verbatim>\<open>sys.exit\<close> nowhere, and one when an exception leaves it.
\<close>

definition exit_status :: "py_exception + unit \<Rightarrow> nat" where
  "exit_status result = (case result of Inr u \<Rightarrow> 0 | Inl e \<Rightarrow> 1)"

text \<open>
  For examples: a programmer and core whose calls all return, with the connection check
  answering \<open>found\<close>, and a command line that asks for a wipe, one hex file, the info
  report and two reads at once.
\<close>

definition answering_device :: "bool \<Rightarrow> device" where
  "answering_device found =
     \<lparr>create_programmer = (\<lambda>calls. Inr ()),
      is_connected = (\<lambda>calls. Inr found),
      wipe_flash = (\<lambda>calls. Inr ()),
      program = (\<lambda>calls. Inr ()),
      info_report = (\<lambda>calls. Inr ()),
      readmem8 = (\<lambda>calls. Inr 0x05),
      readmem16 = (\<lambda>calls. Inr 0x3F2A),
      readmem32 = (\<lambda>calls. Inr 0x10010305)\<rparr>"

definition two_reads_args :: args where
  "two_reads_args =
     \<lparr>programmer = ''jlink'', wipe = True, info = True,
      program_hex = Some [''/fw/img_a.hex''], program_bin = None,
      read_mem_8 = Some 0x41002018, read_mem_16 = Some 0x0080A00E, read_mem_32 = None\<rparr>"


section \<open>Facts about the script builders\<close>

lemma for_append_map: "for_append body commands xs = commands @ map body xs"
  by (induction xs arbitrary: commands) simp_all

lemma startswith_append: "startswith (p @ s) p"
  by (induction p) simp_all

lemma replicate_numeral: "replicate (numeral k) x = x # replicate (pred_numeral k) x"
  by (simp add: numeral_eq_Suc)

lemma fmt_08X_0x2000: "fmt_08X 0x2000 = ''00002000''"
  by (simp add: fmt_08X_def hex_digits.simps hex_char_def replicate_numeral)

lemma STLink_SAMD21_program_commands_eq:
  "STLink_SAMD21_program_commands esc ab hex bin =
     [''init'', ''reset init'']
     @ map (\<lambda>f. ''load_image '' @ esc (ab f) @ '' 0 ihex'') hex
     @ map (\<lambda>(f, addr). ''load_image '' @ esc (ab f) @ '' 0x'' @ fmt_08X addr @ '' bin'') bin
     @ map (\<lambda>f. ''verify_image '' @ esc (ab f) @ '' 0 ihex'') hex
     @ map (\<lambda>(f, addr). ''verify_image '' @ esc (ab f) @ '' 0x'' @ fmt_08X addr @ '' bin'') bin
     @ [''reset run'', ''exit'']"
  by (simp add: STLink_SAMD21_program_commands_def for_append_map)

lemma JLink_program_commands_eq:
  \<open>JLink_program_commands ab hex bin =
     [''r'']
     @ map (\<lambda>f. ''loadfile "'' @ ab f @ ''"'') hex
     @ map (\<lambda>(f, addr). ''loadbin "'' @ ab f @ ''" 0x'' @ fmt_08X addr) bin
     @ [''r'', ''g'', ''q'']\<close>
  by (simp add: JLink_program_commands_def for_append_map)

lemma count_openocd_load:
  "length (filter is_load_image (STLink_SAMD21_program_commands esc ab hex bin))
     = length hex + length bin"
  by (simp add: STLink_SAMD21_program_commands_eq is_load_image_def filter_map o_def split_def)

lemma count_openocd_verify:
  "length (filter is_verify_image (STLink_SAMD21_program_commands esc ab hex bin))
     = length hex + length bin"
  by (simp add: STLink_SAMD21_program_commands_eq is_verify_image_def filter_map o_def split_def)

lemma count_jlink_load:
  "length (filter is_jlink_load (JLink_program_commands ab hex bin)) = length hex + length bin"
  by (simp add: JLink_program_commands_eq is_jlink_load_def filter_map o_def split_def)

lemma count_jlink_verify: "filter is_jlink_verify (JLink_program_commands ab hex bin) = []"
  by (simp add: JLink_program_commands_eq is_jlink_verify_def filter_map o_def split_def)

lemma startswith_iff: "startswith s p = (\<exists>post. s = p @ post)"
  by (induction s p rule: startswith.induct) auto

subsection \<open>C2: the number of load and verify commands\<close>

text \<open>
  Claim C2, as the code has it. For \<open>N\<close> hex files and \<open>M\<close> bin files, the script of
  each of the four OpenOCD programmers of the SAMD21 cores holds exactly \<open>N + M\<close>
  \<^verbatim>\<open>load_image\<close> commands and exactly \<open>N + M\<close> \<^verbatim>\<open>verify_image\<close> commands. The script
  of the JLink programmer holds exactly \<open>N + M\<close> load commands (\<^verbatim>\<open>loadfile\<close>,
  \<^verbatim>\<open>loadbin\<close>) and no verify command at all.
\<close>

theorem program_load_verify_counts:
  "length (filter is_load_image
       (STLink_SAMD21_program_commands escape_path abspath hex_files bin_files))
     = length hex_files + length bin_files
   \<and> length (filter is_verify_image
       (STLink_SAMD21_program_commands escape_path abspath hex_files bin_files))
     = length hex_files + length bin_files
   \<and> length (filter is_load_image
       (RasPi2_SAMD21_program_commands escape_path abspath hex_files bin_files))
     = length hex_files + length bin_files
   \<and> length (filter is_verify_image
       (RasPi2_SAMD21_program_commands escape_path abspath hex_files bin_files))
     = length hex_files + length bin_files
   \<and> length (filter is_load_image
       (STLink_ATSAMD21G18_program_commands escape_path abspath hex_files bin_files))
     = length hex_files + length bin_files
   \<and> length (filter is_verify_image
       (STLink_ATSAMD21G18_program_commands escape_path abspath hex_files bin_files))
     = length hex_files + length bin_files
   \<and> length (filter is_load_image
       (RasPi2_ATSAMD21G18_program_commands escape_path abspath hex_files bin_files))
     = length hex_files + length bin_files
   \<and> length (filter is_verify_image
       (RasPi2_ATSAMD21G18_program_commands escape_path abspath hex_files bin_files))
     = length hex_files + length bin_files
   \<and> length (filter is_jlink_load (JLink_program_commands abspath hex_files bin_files))
     = length hex_files + length bin_files
   \<and> filter is_jlink_verify (JLink_program_commands abspath hex_files bin_files) = []"
  unfolding RasPi2_SAMD21_program_commands_def STLink_ATSAMD21G18_program_commands_def
    RasPi2_ATSAMD21G18_program_commands_def
  using count_openocd_load [of escape_path abspath hex_files bin_files]
    count_openocd_verify [of escape_path abspath hex_files bin_files]
    count_jlink_load [of abspath hex_files bin_files]
    count_jlink_verify [of abspath hex_files bin_files]
  by simp

text \<open>
  The counts at one hex file and one bin file, with paths that are absolute already and
  an escape that changes nothing.
\<close>

theorem program_load_verify_counts_witness:
  "length (filter is_load_image
       (STLink_SAMD21_program_commands (\<lambda>p. p) (\<lambda>p. p) [''/fw/img_a.hex''] [(''/fw/img_b.bin'', 0x2000)]))
     = 2
   \<and> length (filter is_verify_image
       (RasPi2_ATSAMD21G18_program_commands (\<lambda>p. p) (\<lambda>p. p) [''/fw/img_a.hex''] [(''/fw/img_b.bin'', 0x2000)]))
     = 2
   \<and> length (filter is_jlink_load
       (JLink_program_commands (\<lambda>p. p) [''/fw/img_a.hex''] [(''/fw/img_b.bin'', 0x2000)]))
     = 2"
  using program_load_verify_counts
    [of "\<lambda>p. p" "\<lambda>p. p" "[''/fw/img_a.hex'']" "[(''/fw/img_b.bin'', 0x2000)]"]
  by simp

text \<open>
  Claim C2 as stated fails for the JLink programmer: for one hex file its script holds
  no verify command, not one.
\<close>

theorem jlink_script_without_verify:
  "length (filter is_jlink_verify (JLink_program_commands (\<lambda>p. p) [''/fw/img_a.hex''] []))
     \<noteq> length [''/fw/img_a.hex''] + length ([] :: (string \<times> int) list)"
  by (simp add: JLink_program_commands_def is_jlink_verify_def)

subsection \<open>C3: the order of the script\<close>

text \<open>
  Claim C3. The script that \<^verbatim>\<open>program\<close> of the OpenOCD programmers builds is: \<^verbatim>\<open>init\<close>
  and \<^verbatim>\<open>reset init\<close>; a load command for every hex file in the order of the request;
  a load command for every bin file in that order; a verify command for every hex file
  in the same order; a verify command for every bin file in the same order;
  \<^verbatim>\<open>reset run\<close>; \<^verbatim>\<open>exit\<close>. So the load command of the \<open>i\<close>-th hex file stands at
  index \<open>2 + i\<close> and its verify command at the later index \<open>2 + N + M + i\<close>, the load
  command of the \<open>j\<close>-th bin file at \<open>2 + N + j\<close> and its verify command at the later
  index \<open>2 + N + M + N + j\<close>, and each verify command names the path and the address
  that the load command of the same file names. All four classes build the same script.
\<close>

theorem program_script_order:
  "(let commands = STLink_SAMD21_program_commands escape_path abspath hex_files bin_files;
        n = length hex_files; m = length bin_files
    in commands =
         [''init'', ''reset init'']
         @ map (\<lambda>f. ''load_image '' @ escape_path (abspath f) @ '' 0 ihex'') hex_files
         @ map (\<lambda>(f, addr).
             ''load_image '' @ escape_path (abspath f) @ '' 0x'' @ fmt_08X addr @ '' bin'') bin_files
         @ map (\<lambda>f. ''verify_image '' @ escape_path (abspath f) @ '' 0 ihex'') hex_files
         @ map (\<lambda>(f, addr).
             ''verify_image '' @ escape_path (abspath f) @ '' 0x'' @ fmt_08X addr @ '' bin'') bin_files
         @ [''reset run'', ''exit'']
       \<and> length commands = 2 * n + 2 * m + 4
       \<and> (\<forall>i < n.
             commands ! (2 + i)
               = ''load_image '' @ escape_path (abspath (hex_files ! i)) @ '' 0 ihex''
           \<and> commands ! (2 + n + m + i)
               = ''verify_image '' @ escape_path (abspath (hex_files ! i)) @ '' 0 ihex'')
       \<and> (\<forall>j < m.
             commands ! (2 + n + j)
               = ''load_image '' @ escape_path (abspath (fst (bin_files ! j)))
                   @ '' 0x'' @ fmt_08X (snd (bin_files ! j)) @ '' bin''
           \<and> commands ! (2 + n + m + n + j)
               = ''verify_image '' @ escape_path (abspath (fst (bin_files ! j)))
                   @ '' 0x'' @ fmt_08X (snd (bin_files ! j)) @ '' bin'')
       \<and> RasPi2_SAMD21_program_commands escape_path abspath hex_files bin_files = commands
       \<and> STLink_ATSAMD21G18_program_commands escape_path abspath hex_files bin_files = commands
       \<and> RasPi2_ATSAMD21G18_program_commands escape_path abspath hex_files bin_files = commands)"
proof -
  let ?lh = "\<lambda>f. ''load_image '' @ escape_path (abspath f) @ '' 0 ihex''"
  let ?lb = "\<lambda>(f, addr). ''load_image '' @ escape_path (abspath f) @ '' 0x'' @ fmt_08X addr @ '' bin''"
  let ?vh = "\<lambda>f. ''verify_image '' @ escape_path (abspath f) @ '' 0 ihex''"
  let ?vb = "\<lambda>(f, addr). ''verify_image '' @ escape_path (abspath f) @ '' 0x'' @ fmt_08X addr @ '' bin''"
  let ?c = "STLink_SAMD21_program_commands escape_path abspath hex_files bin_files"
  have shape: "?c = [''init'', ''reset init''] @ map ?lh hex_files @ map ?lb bin_files
                 @ map ?vh hex_files @ map ?vb bin_files @ [''reset run'', ''exit'']"
    by (rule STLink_SAMD21_program_commands_eq)
  have len: "length ?c = 2 * length hex_files + 2 * length bin_files + 4"
    by (simp add: shape)
  have hexes: "?c ! (2 + i) = ?lh (hex_files ! i)
      \<and> ?c ! (2 + length hex_files + length bin_files + i) = ?vh (hex_files ! i)"
    if "i < length hex_files" for i
    using that by (simp add: shape nth_append)
  have bins: "?c ! (2 + length hex_files + j) = ?lb (bin_files ! j)
      \<and> ?c ! (2 + length hex_files + length bin_files + length hex_files + j) = ?vb (bin_files ! j)"
    if "j < length bin_files" for j
    using that by (simp add: shape nth_append)
  show ?thesis
    unfolding Let_def
    using shape len hexes bins
    by (simp add: RasPi2_SAMD21_program_commands_def STLink_ATSAMD21G18_program_commands_def
        RasPi2_ATSAMD21G18_program_commands_def split_def)
qed

text \<open>
  The request of one hex file and one bin file at \<open>0x00002000\<close>: both loads come first,
  and the verify of the bin file names the same address as its load.
\<close>

theorem program_script_order_witness:
  "(0 :: nat) < length [''/fw/img_a.hex'']
   \<and> (0 :: nat) < length [(''/fw/img_b.bin'', 0x2000 :: int)]
   \<and> STLink_SAMD21_program_commands (\<lambda>p. p) (\<lambda>p. p) [''/fw/img_a.hex''] [(''/fw/img_b.bin'', 0x2000)]
       = [''init'', ''reset init'',
          ''load_image /fw/img_a.hex 0 ihex'', ''load_image /fw/img_b.bin 0x00002000 bin'',
          ''verify_image /fw/img_a.hex 0 ihex'', ''verify_image /fw/img_b.bin 0x00002000 bin'',
          ''reset run'', ''exit'']
   \<and> STLink_SAMD21_program_commands (\<lambda>p. p) (\<lambda>p. p) [''/fw/img_a.hex''] [(''/fw/img_b.bin'', 0x2000)] ! 3
       = ''load_image /fw/img_b.bin 0x00002000 bin''
   \<and> STLink_SAMD21_program_commands (\<lambda>p. p) (\<lambda>p. p) [''/fw/img_a.hex''] [(''/fw/img_b.bin'', 0x2000)] ! 5
       = ''verify_image /fw/img_b.bin 0x00002000 bin''"
  using program_script_order
    [of "\<lambda>p. p" "\<lambda>p. p" "[''/fw/img_a.hex'']" "[(''/fw/img_b.bin'', 0x2000)]"]
  by (simp add: Let_def fmt_08X_0x2000)

subsection \<open>C1: the check of the verified lines\<close>

lemma verified_lines_one:
  "verified_lines ''verified 1024 bytes in 0.1s'' = [''verified 1024 bytes in 0.1s'']"
  by (simp add: verified_lines_def splitlines_def is_linebreak_def)

text \<open>
  Claim C1 at one hex file and an output with one line that begins with \<^verbatim>\<open>verified \<close>.
  The count of such lines is one, the number of files, and the comparison of lines 103
  and 104 passes on that count. \<^verbatim>\<open>program\<close> does not succeed: line 102 applies \<^verbatim>\<open>len\<close>
  to a filter object, and the \<^verbatim>\<open>TypeError\<close> of that call leaves the method before the
  comparison is reached. The same holds of \<^verbatim>\<open>RasPi2_ATSAMD21G18.program\<close>, and of every
  output that OpenOCD returns and every list of files.
\<close>

theorem program_raises_on_verified_output:
  \<open>length (verified_lines ''verified 1024 bytes in 0.1s'')
     = length [''/fw/img_a.hex''] + length ([] :: (string \<times> int) list)
   \<and> verify_check (length (verified_lines ''verified 1024 bytes in 0.1s'')) [''/fw/img_a.hex''] []
     = Inr ()
   \<and> STLink_SAMD21_program (\<lambda>commands. Inr ''verified 1024 bytes in 0.1s'') (\<lambda>p. p) (\<lambda>p. p)
       [''/fw/img_a.hex''] []
     = Inl (TypeError ''object of type 'filter' has no len()'')
   \<and> RasPi2_ATSAMD21G18_program (\<lambda>commands. Inr ''verified 1024 bytes in 0.1s'') (\<lambda>p. p) (\<lambda>p. p)
       [''/fw/img_a.hex''] []
     = Inl (TypeError ''object of type 'filter' has no len()'')
   \<and> STLink_SAMD21_program (\<lambda>commands. Inr out) escape_path abspath hex_files bin_files
     = Inl (TypeError ''object of type 'filter' has no len()'')\<close>
  by (simp add: STLink_SAMD21_program_def RasPi2_ATSAMD21G18_program_def py_filter_def
      verify_check_def verified_lines_one)

subsection \<open>C5: the register read\<close>

lemma underscore_not_hex: "hex_digit_value (CHR ''_'') = None"
  by (simp add: hex_digit_value_def)

lemma hex_body_digits:
  "list_all is_hex_digit xs \<Longrightarrow>
   hex_body acc xs
     = Some (foldl (\<lambda>acc c. 16 * acc + (case hex_digit_value c of Some v \<Rightarrow> v | None \<Rightarrow> 0)) acc xs)"
proof (induction acc xs rule: hex_body.induct)
  case (1 acc)
  then show ?case by simp
next
  case (2 acc c)
  then show ?case by (auto simp: is_hex_digit_def)
next
  case (3 acc c d ds)
  then have c: "c \<noteq> CHR ''_''" and hc: "hex_digit_value c \<noteq> None"
    using underscore_not_hex by (auto simp: is_hex_digit_def)
  from hc obtain v where v: "hex_digit_value c = Some v" by auto
  from 3 c v show ?case by simp
qed

lemma hex_number_digits:
  "xs \<noteq> [] \<Longrightarrow> list_all is_hex_digit xs \<Longrightarrow> hex_number xs = Some (hex_value xs)"
  by (cases xs) (auto simp: hex_number_def hex_value_def hex_body_digits is_hex_digit_def)

lemma hex_digit_not_special:
  "is_hex_digit c \<Longrightarrow> c \<noteq> CHR ''-'' \<and> c \<noteq> CHR ''+'' \<and> c \<noteq> CHR ''x'' \<and> c \<noteq> CHR ''X''"
  by (auto simp: is_hex_digit_def hex_digit_value_def)

lemma strip_hex_prefix_digits: "list_all is_hex_digit xs \<Longrightarrow> strip_hex_prefix xs = xs"
proof (cases xs)
  case Nil
  then show ?thesis by (simp add: strip_hex_prefix_def)
next
  case (Cons c cs)
  assume a: "list_all is_hex_digit xs"
  show ?thesis
  proof (cases cs)
    case Nil
    with Cons show ?thesis by (simp add: strip_hex_prefix_def)
  next
    case (Cons d ds)
    with a \<open>xs = c # cs\<close> have "d \<noteq> CHR ''x'' \<and> d \<noteq> CHR ''X''"
      using hex_digit_not_special [of d] by simp
    with Cons \<open>xs = c # cs\<close> show ?thesis by (simp add: strip_hex_prefix_def)
  qed
qed

lemma py_int16_digits:
  assumes "xs \<noteq> []" and "list_all is_hex_digit xs"
  shows "py_int16 xs = Some (int (hex_value xs))"
proof -
  from assms obtain c cs where xs: "xs = c # cs" by (cases xs) auto
  with assms have "c \<noteq> CHR ''-'' \<and> c \<noteq> CHR ''+''"
    using hex_digit_not_special [of c] by simp
  with xs have "\<not> startswith xs ''-''" and "\<not> startswith xs ''+''" by simp_all
  then show ?thesis
    using assms by (simp add: py_int16_def strip_hex_prefix_digits hex_number_digits)
qed















lemma hex_digit_value_below: "hex_digit_value c = Some v \<Longrightarrow> v < 16"
  by (auto simp: hex_digit_value_def Let_def split: if_splits)

lemma hex_value_bound_aux:
  "list_all is_hex_digit xs \<Longrightarrow>
   foldl (\<lambda>acc c. 16 * acc + (case hex_digit_value c of Some v \<Rightarrow> v | None \<Rightarrow> 0)) acc xs
     < (acc + 1) * 16 ^ length xs"
proof (induction xs arbitrary: acc)
  case Nil
  then show ?case by simp
next
  case (Cons c cs)
  then obtain v where v: "hex_digit_value c = Some v" by (auto simp: is_hex_digit_def)
  then have "v < 16" by (rule hex_digit_value_below)
  have "foldl (\<lambda>acc c. 16 * acc + (case hex_digit_value c of Some v \<Rightarrow> v | None \<Rightarrow> 0)) (16 * acc + v) cs
      < (16 * acc + v + 1) * 16 ^ length cs"
    using Cons by simp
  also have "\<dots> \<le> (16 * (acc + 1)) * 16 ^ length cs"
    using \<open>v < 16\<close> by (intro mult_right_mono) auto
  also have "\<dots> = (acc + 1) * 16 ^ length (c # cs)"
    by (simp add: algebra_simps)
  finally show ?case using v by simp
qed

lemma hex_value_bound: "list_all is_hex_digit xs \<Longrightarrow> hex_value xs < 16 ^ length xs"
  using hex_value_bound_aux [of xs 0] by (simp add: hex_value_def)


lemma takeWhile_run:
  "list_all P xs \<Longrightarrow> ys = [] \<or> \<not> P (hd ys) \<Longrightarrow> takeWhile P (xs @ ys) = xs"
  by (induction xs) (auto simp: takeWhile_eq_Nil_iff)
















lemma fixed_output_jlink_run:
  "JLink_run_commands (fixed_output_jlink answer) commands (Some 60) = Inr answer"
  by (simp add: JLink_run_commands_def JLink_run_filename_def communicate_def
      fixed_output_jlink_def Let_def)


lemma fmt_08X_0x41002018: "fmt_08X 0x41002018 = ''41002018''"
  by (simp add: fmt_08X_def hex_digits.simps hex_char_def replicate_numeral)

















































subsection \<open>C9: the size of the value read\<close>

lemma search_41002018: "search_readmem True ''41002018'' ''41002018 = 1FF'' = Some ''1FF''"
  by (simp add: match_readmem_def ascii_lower_def is_space_def)

lemma py_int16_1FF: "py_int16 ''1FF'' = Some 511"
  by (simp add: py_int16_def strip_hex_prefix_def hex_number_def hex_digit_value_def)

text \<open>
  Claim C9, as the code has it. The width of a read only chooses the command sent to
  JLinkExe (\<^verbatim>\<open>mem8\<close>, \<^verbatim>\<open>mem16\<close>, \<^verbatim>\<open>mem32\<close>). Every successful read returns what
  \<^verbatim>\<open>int(token, 16)\<close> gives for the token that follows the address on the first matching
  line, and nothing compares it with the width. When the token holds hexadecimal digits
  only, the value is not negative and is below sixteen to the power of the number of
  digits: it is below \<open>2 ^ W\<close> when the tool prints at most \<open>W / 4\<close> digits.
\<close>

theorem readmem_value_unchecked:
  assumes "JLink_readmem self address command = Inr v"
  shows "\<exists>output token.
           JLink_run_commands self [command @ '' '' @ fmt_08X address @ '' 1'', ''q''] (Some 60)
             = Inr output
         \<and> search_readmem True (fmt_08X address) output = Some token
         \<and> py_int16 token = Some v
         \<and> (list_all is_hex_digit token \<longrightarrow> 0 \<le> v \<and> v < 16 ^ length token)"
proof -
  let ?run = "JLink_run_commands self [command @ '' '' @ fmt_08X address @ '' 1'', ''q''] (Some 60)"
  from assms obtain out where run: "?run = Inr out"
    and parse: "readmem_parse (fmt_08X address) out = Inr v"
    by (cases ?run) (simp_all add: JLink_readmem_def Let_def)
  from parse obtain token where found: "search_readmem True (fmt_08X address) out = Some token"
    and tok: "py_int16 token = Some v"
    by (auto simp: readmem_parse_def split: option.splits)
  have "token \<noteq> []"
  proof
    assume "token = []"
    with tok show False
      by (simp add: py_int16_def strip_hex_prefix_def hex_number_def)
  qed
  have "0 \<le> v \<and> v < 16 ^ length token" if digits: "list_all is_hex_digit token"
  proof -
    have "py_int16 token = Some (int (hex_value token))"
      using \<open>token \<noteq> []\<close> digits by (rule py_int16_digits)
    with tok have v: "v = int (hex_value token)" by simp
    have "hex_value token < 16 ^ length token"
      using digits by (rule hex_value_bound)
    then have "int (hex_value token) < int (16 ^ length token)"
      by (simp only: of_nat_less_iff)
    with v show ?thesis by simp
  qed
  with run found tok show ?thesis by blast
qed

text \<open>The 8-bit read of a line with three digits: the value is that of the token.\<close>

theorem readmem_value_unchecked_witness:
  "JLink_readmem8 (fixed_output_jlink ''41002018 = 1FF'') 0x41002018 = Inr 511
   \<and> search_readmem True (fmt_08X 0x41002018) ''41002018 = 1FF'' = Some ''1FF''
   \<and> py_int16 ''1FF'' = Some 511
   \<and> (0 :: int) \<le> 511 \<and> (511 :: int) < 16 ^ length ''1FF''"
proof -
  have r: "JLink_readmem (fixed_output_jlink ''41002018 = 1FF'') 0x41002018 ''mem8'' = Inr 511"
    by (simp add: JLink_readmem_def Let_def fixed_output_jlink_run fmt_08X_0x41002018
        readmem_parse_def search_41002018 py_int16_1FF del: search_readmem.simps)
  from readmem_value_unchecked [OF r] obtain out token where
    "JLink_run_commands (fixed_output_jlink ''41002018 = 1FF'')
        [''mem8'' @ '' '' @ fmt_08X 0x41002018 @ '' 1'', ''q''] (Some 60) = Inr out"
    and s: "search_readmem True (fmt_08X 0x41002018) out = Some token"
    and p: "py_int16 token = Some 511"
    and b: "list_all is_hex_digit token \<longrightarrow> (0 :: int) \<le> 511 \<and> (511 :: int) < 16 ^ length token"
    by blast
  then have "out = ''41002018 = 1FF''" by (simp add: fixed_output_jlink_run)
  with s have "token = ''1FF''"
    by (simp add: fmt_08X_0x41002018 search_41002018 del: search_readmem.simps)
  with b s p r \<open>out = ''41002018 = 1FF''\<close> show ?thesis
    by (simp add: JLink_readmem8_def is_hex_digit_def hex_digit_value_def)
qed

text \<open>
  Claim C9 as stated fails: an 8-bit read whose output line holds three digits returns
  511, which is not below \<open>2 ^ 8\<close>.
\<close>

theorem readmem8_returns_wider_value:
  "JLink_readmem8 (fixed_output_jlink ''41002018 = 1FF'') 0x41002018 = Inr 511
   \<and> \<not> (511 :: int) < 2 ^ 8"
  by (simp add: JLink_readmem8_def JLink_readmem_def Let_def fixed_output_jlink_run
      fmt_08X_0x41002018 readmem_parse_def search_41002018 py_int16_1FF del: search_readmem.simps)

subsection \<open>C4: the connection check\<close>

lemma str_contains_iff: "str_contains sub s = (\<exists>pre post. s = pre @ sub @ post)"
proof (induction s)
  case Nil
  then show ?case by auto
next
  case (Cons c cs)
  show ?case
  proof
    assume "str_contains sub (c # cs)"
    then consider "startswith (c # cs) sub" | "str_contains sub cs" by auto
    then show "\<exists>pre post. c # cs = pre @ sub @ post"
    proof cases
      case 1
      then obtain post where "c # cs = sub @ post" by (auto simp: startswith_iff)
      then have "c # cs = [] @ sub @ post" by simp
      then show ?thesis by blast
    next
      case 2
      with Cons obtain pre post where "cs = pre @ sub @ post" by auto
      then have "c # cs = (c # pre) @ sub @ post" by simp
      then show ?thesis by blast
    qed
  next
    assume "\<exists>pre post. c # cs = pre @ sub @ post"
    then obtain pre post where eq: "c # cs = pre @ sub @ post" by blast
    show "str_contains sub (c # cs)"
    proof (cases pre)
      case Nil
      with eq have "startswith (c # cs) sub" by (auto simp: startswith_iff)
      then show ?thesis by simp
    next
      case (Cons d ds)
      with eq have "cs = ds @ sub @ post" by simp
      with Cons.IH have "str_contains sub cs" by blast
      then show ?thesis by simp
    qed
  qed
qed

lemma dropWhile_run:
  "list_all P xs \<Longrightarrow> ys = [] \<or> \<not> P (hd ys) \<Longrightarrow> dropWhile P (xs @ ys) = ys"
  by (induction xs) (auto simp: dropWhile_eq_self_iff)

lemma V_not_voltage_char: "\<not> is_voltage_char (CHR ''V'')"
  by (simp add: is_voltage_char_def is_digit_def)

lemma match_vtref_here:
  assumes "g \<noteq> []" and "list_all is_voltage_char g"
  shows "match_vtref (''VTref='' @ g @ ''V'' @ post) = Some g"
proof -
  have "takeWhile is_voltage_char (g @ ''V'' @ post) = g"
    using assms(2) V_not_voltage_char by (intro takeWhile_run) auto
  moreover have "dropWhile is_voltage_char (g @ ''V'' @ post) = ''V'' @ post"
    using assms(2) V_not_voltage_char by (intro dropWhile_run) auto
  ultimately show ?thesis
    using assms(1) by (simp add: match_vtref_def)
qed

lemma match_vtref_shape:
  assumes "match_vtref s = Some g"
  shows "\<exists>post. s = ''VTref='' @ g @ ''V'' @ post \<and> g \<noteq> [] \<and> list_all is_voltage_char g"
proof -
  from assms have st: "startswith s ''VTref=''"
    and g: "g = takeWhile is_voltage_char (drop 6 s)" and ne: "g \<noteq> []"
    and v: "startswith (dropWhile is_voltage_char (drop 6 s)) ''V''"
    by (auto simp: match_vtref_def Let_def split: if_splits)
  from st obtain rest where s: "s = ''VTref='' @ rest" by (auto simp: startswith_iff)
  then have rest: "drop 6 s = rest" by simp
  from v obtain post where d: "dropWhile is_voltage_char rest = ''V'' @ post"
    unfolding rest by (auto simp: startswith_iff)
  have "rest = takeWhile is_voltage_char rest @ dropWhile is_voltage_char rest" by simp
  with g rest d have "rest = g @ ''V'' @ post" by simp
  moreover have "list_all is_voltage_char g"
    unfolding g by (simp add: list_all_iff) (meson set_takeWhileD)
  ultimately show ?thesis using s ne by blast
qed

lemma search_vtref_Some:
  "search_vtref s = Some g \<Longrightarrow>
   \<exists>pre post. s = pre @ ''VTref='' @ g @ ''V'' @ post \<and> g \<noteq> [] \<and> list_all is_voltage_char g"
proof (induction s)
  case Nil
  then show ?case by simp
next
  case (Cons c cs)
  show ?case
  proof (cases "match_vtref (c # cs)")
    case None
    with Cons.prems have "search_vtref cs = Some g" by simp
    with Cons.IH obtain pre post where
      "cs = pre @ ''VTref='' @ g @ ''V'' @ post" "g \<noteq> []" "list_all is_voltage_char g"
      by blast
    then have "c # cs = (c # pre) @ ''VTref='' @ g @ ''V'' @ post \<and> g \<noteq> [] \<and> list_all is_voltage_char g"
      by simp
    then show ?thesis by blast
  next
    case (Some r)
    with Cons.prems have "r = g" by simp
    with Some obtain post where
      "c # cs = [] @ ''VTref='' @ g @ ''V'' @ post \<and> g \<noteq> [] \<and> list_all is_voltage_char g"
      using match_vtref_shape [of "c # cs" g] by auto
    then show ?thesis by blast
  qed
qed

lemma search_vtref_finds:
  assumes "g \<noteq> []" and "list_all is_voltage_char g"
  shows "search_vtref (pre @ ''VTref='' @ g @ ''V'' @ post) \<noteq> None"
proof (induction pre)
  case Nil
  have "match_vtref (''VTref='' @ g @ ''V'' @ post) = Some g"
    using assms by (rule match_vtref_here)
  then show ?case by simp
next
  case (Cons c pre)
  then show ?case by (simp split: option.splits)
qed

lemma search_vtref_None_iff:
  "(search_vtref s = None)
     = (\<nexists>pre g post. s = pre @ ''VTref='' @ g @ ''V'' @ post \<and> g \<noteq> [] \<and> list_all is_voltage_char g)"
proof
  assume n: "search_vtref s = None"
  show "\<nexists>pre g post. s = pre @ ''VTref='' @ g @ ''V'' @ post \<and> g \<noteq> [] \<and> list_all is_voltage_char g"
  proof
    assume "\<exists>pre g post. s = pre @ ''VTref='' @ g @ ''V'' @ post \<and> g \<noteq> [] \<and> list_all is_voltage_char g"
    then obtain pre g post where "s = pre @ ''VTref='' @ g @ ''V'' @ post" "g \<noteq> []"
      "list_all is_voltage_char g" by blast
    then have "search_vtref s \<noteq> None" using search_vtref_finds by simp
    with n show False by simp
  qed
next
  assume "\<nexists>pre g post. s = pre @ ''VTref='' @ g @ ''V'' @ post \<and> g \<noteq> [] \<and> list_all is_voltage_char g"
  then show "search_vtref s = None"
    using search_vtref_Some [of s] by (cases "search_vtref s") auto
qed

lemma float_below_one_exact:
  assumes "k \<le> 16"
  shows "float_below_one (n, k) = (n < 10 ^ k)"
proof -
  have "(10 :: nat) ^ k \<le> 10 ^ 16" using assms by (intro power_increasing) simp_all
  also have "\<dots> < 2 ^ 54" by simp
  finally have small: "(10 :: nat) ^ k < 2 ^ 54" .
  show ?thesis
  proof (cases "n < 10 ^ k")
    case True
    then have "n + 1 \<le> 10 ^ k" by simp
    then have "(n + 1) * 2 ^ 54 \<le> 10 ^ k * 2 ^ 54" by (rule mult_right_mono) simp
    then have "n * 2 ^ 54 + 2 ^ 54 \<le> 10 ^ k * 2 ^ 54" by (simp add: algebra_simps)
    moreover have "(2 ^ 54 - 1) * 10 ^ k + 10 ^ k = (10 :: nat) ^ k * 2 ^ 54"
      by (simp add: algebra_simps)
    ultimately have "n * 2 ^ 54 < (2 ^ 54 - 1) * 10 ^ k" using small by linarith
    with True show ?thesis by (simp add: float_below_one_def)
  next
    case False
    then have "10 ^ k \<le> n" by simp
    then have "10 ^ k * 2 ^ 54 \<le> n * 2 ^ 54" by (rule mult_right_mono) simp
    moreover have "(2 ^ 54 - 1) * 10 ^ k \<le> (10 :: nat) ^ k * 2 ^ 54"
      by (simp add: algebra_simps)
    ultimately have "\<not> n * 2 ^ 54 < (2 ^ 54 - 1) * 10 ^ k" by linarith
    with False show ?thesis by (simp add: float_below_one_def)
  qed
qed

lemma callback_not_found:
  "create_programmer dev [CreateProgrammer (programmer a)] = Inr () \<Longrightarrow>
   is_connected dev [CreateProgrammer (programmer a), IsConnected] = Inr False \<Longrightarrow>
   Core_callback name dev a []
     = (Inl (AdaLinkError (''Could not find '' @ name @ '', is it connected?'')),
        [CreateProgrammer (programmer a), IsConnected])"
  by (simp add: Core_callback_def and_then_def invoke_def raises_def)

lemma check_failed:
  "is_connected_check ''Cortex-M0 r0p1, Little endian''
     (''Connecting to J-Link via USB...FAILED'' @ [CHR 0x0A])
   = Inl (AdaLinkError ''Could not find a JLink programmer, is it connected?'')"
  by (simp add: is_connected_check_def)

lemma search_vtref_3300:
  "search_vtref (''VTref=3.300V'' @ [CHR 0x0A] @ rest) = Some ''3.300''"
  by (simp add: match_vtref_def is_voltage_char_def is_digit_def)

lemma search_vtref_0500:
  "search_vtref (''VTref=0.500V'' @ rest) = Some ''0.500''"
  by (simp add: match_vtref_def is_voltage_char_def is_digit_def)

lemma decimal_of_3300: "decimal_of ''3.300'' = Some (3300, 3)"
  by (simp add: decimal_of_def is_digit_def)

lemma decimal_of_0500: "decimal_of ''0.500'' = Some (500, 3)"
  by (simp add: decimal_of_def is_digit_def)

lemma search_vtref_none: "search_vtref ''Found Cortex-M0 r0p1, Little endian.'' = None"
  by (simp add: match_vtref_def)

text \<open>
  Claim C4, as the code has it. The checks of \<^verbatim>\<open>JLink.is_connected\<close> run in this order,
  and the first that applies decides. An output that holds \<^verbatim>\<open>FAILED\<close> ends in the failure
  for a programmer that is not connected. Otherwise an output with no voltage reading (no
  \<^verbatim>\<open>VTref=\<close> followed by digits and dots and then \<^verbatim>\<open>V\<close>) ends in the failure for the
  missing voltage, with or without the found token. Otherwise a well-formed reading that
  \<^verbatim>\<open>float\<close> puts below one ends in the low voltage failure, with or without the found
  token; for a reading with at most 16 digits after the dot these are the readings below
  1.0 V. Otherwise the method returns whether the found token is in the output, and on
  \<^verbatim>\<open>False\<close> the callback of the core raises the failure for a device that is not
  connected.
\<close>

theorem is_connected_classification:
  "(str_contains ''FAILED'' captured \<longrightarrow>
      is_connected_check connected_to captured
        = Inl (AdaLinkError ''Could not find a JLink programmer, is it connected?''))
   \<and> (\<not> str_contains ''FAILED'' captured \<and> search_vtref captured = None \<longrightarrow>
      is_connected_check connected_to captured
        = Inl (AdaLinkError ''JLink output lacks voltage information''))
   \<and> (\<not> str_contains ''FAILED'' captured \<and> search_vtref captured = Some reading
        \<and> decimal_of reading = Some d \<and> float_below_one d \<longrightarrow>
      is_connected_check connected_to captured
        = Inl (AdaLinkError (''JLink reference voltage is '' @ reading @ ''V, it the chip powered?'')))
   \<and> (\<not> str_contains ''FAILED'' captured \<and> search_vtref captured = Some reading
        \<and> decimal_of reading = Some d \<and> \<not> float_below_one d \<longrightarrow>
      is_connected_check connected_to captured
        = Inr (str_contains (''Found '' @ connected_to) captured))
   \<and> (create_programmer dev [CreateProgrammer (programmer a)] = Inr ()
        \<and> is_connected dev [CreateProgrammer (programmer a), IsConnected] = Inr False \<longrightarrow>
      Core_callback name dev a []
        = (Inl (AdaLinkError (''Could not find '' @ name @ '', is it connected?'')),
           [CreateProgrammer (programmer a), IsConnected]))
   \<and> (search_vtref captured = None)
       = (\<nexists>pre g post. captured = pre @ ''VTref='' @ g @ ''V'' @ post
            \<and> g \<noteq> [] \<and> list_all is_voltage_char g)
   \<and> str_contains sub captured = (\<exists>pre post. captured = pre @ sub @ post)
   \<and> (k \<le> 16 \<longrightarrow> float_below_one (n, k) = (n < 10 ^ k))"
proof (intro conjI impI)
  assume "str_contains ''FAILED'' captured"
  then show "is_connected_check connected_to captured
      = Inl (AdaLinkError ''Could not find a JLink programmer, is it connected?'')"
    by (simp add: is_connected_check_def)
next
  assume "\<not> str_contains ''FAILED'' captured \<and> search_vtref captured = None"
  then show "is_connected_check connected_to captured
      = Inl (AdaLinkError ''JLink output lacks voltage information'')"
    by (simp add: is_connected_check_def)
next
  assume "\<not> str_contains ''FAILED'' captured \<and> search_vtref captured = Some reading
      \<and> decimal_of reading = Some d \<and> float_below_one d"
  then show "is_connected_check connected_to captured
      = Inl (AdaLinkError (''JLink reference voltage is '' @ reading @ ''V, it the chip powered?''))"
    by (simp add: is_connected_check_def)
next
  assume "\<not> str_contains ''FAILED'' captured \<and> search_vtref captured = Some reading
      \<and> decimal_of reading = Some d \<and> \<not> float_below_one d"
  then show "is_connected_check connected_to captured
      = Inr (str_contains (''Found '' @ connected_to) captured)"
    by (simp add: is_connected_check_def)
next
  assume "create_programmer dev [CreateProgrammer (programmer a)] = Inr ()
      \<and> is_connected dev [CreateProgrammer (programmer a), IsConnected] = Inr False"
  then show "Core_callback name dev a []
      = (Inl (AdaLinkError (''Could not find '' @ name @ '', is it connected?'')),
         [CreateProgrammer (programmer a), IsConnected])"
    using callback_not_found [of dev a name] by blast
next
  show "(search_vtref captured = None)
      = (\<nexists>pre g post. captured = pre @ ''VTref='' @ g @ ''V'' @ post
           \<and> g \<noteq> [] \<and> list_all is_voltage_char g)"
    by (rule search_vtref_None_iff)
next
  show "str_contains sub captured = (\<exists>pre post. captured = pre @ sub @ post)"
    by (rule str_contains_iff)
next
  assume "k \<le> 16"
  then show "float_below_one (n, k) = (n < 10 ^ k)"
    by (rule float_below_one_exact)
qed

text \<open>
  One output for each outcome: connected, found token absent, low voltage with the found
  token present, no reading, \<^verbatim>\<open>FAILED\<close>; and the callback on a check that returned
  \<^verbatim>\<open>False\<close>.
\<close>

theorem is_connected_classification_witness:
  "is_connected_check ''Cortex-M0 r0p1, Little endian''
       (''VTref=3.300V'' @ [CHR 0x0A] @ ''Found Cortex-M0 r0p1, Little endian.'')
     = Inr True
   \<and> is_connected_check ''Cortex-M0 r0p1, Little endian''
       (''VTref=3.300V'' @ [CHR 0x0A] @ ''Cannot connect to target.'')
     = Inr False
   \<and> is_connected_check ''Cortex-M0 r0p1, Little endian''
       (''VTref=0.500V'' @ [CHR 0x0A] @ ''Found Cortex-M0 r0p1, Little endian.'')
     = Inl (AdaLinkError ''JLink reference voltage is 0.500V, it the chip powered?'')
   \<and> is_connected_check ''Cortex-M0 r0p1, Little endian'' ''Found Cortex-M0 r0p1, Little endian.''
     = Inl (AdaLinkError ''JLink output lacks voltage information'')
   \<and> is_connected_check ''Cortex-M0 r0p1, Little endian''
       (''VTref=3.300V'' @ [CHR 0x0A] @ ''Connecting to target...FAILED'')
     = Inl (AdaLinkError ''Could not find a JLink programmer, is it connected?'')
   \<and> Core_callback ''samd21'' (answering_device False) two_reads_args []
     = (Inl (AdaLinkError ''Could not find samd21, is it connected?''),
        [CreateProgrammer ''jlink'', IsConnected])"
proof -
  let ?c = "''Cortex-M0 r0p1, Little endian''"
  let ?ok = "''VTref=3.300V'' @ [CHR 0x0A] @ ''Found Cortex-M0 r0p1, Little endian.''"
  let ?absent = "''VTref=3.300V'' @ [CHR 0x0A] @ ''Cannot connect to target.''"
  let ?low = "''VTref=0.500V'' @ [CHR 0x0A] @ ''Found Cortex-M0 r0p1, Little endian.''"
  let ?novolt = "''Found Cortex-M0 r0p1, Little endian.''"
  let ?failed = "''VTref=3.300V'' @ [CHR 0x0A] @ ''Connecting to target...FAILED''"
  have high: "\<not> float_below_one (3300, 3)" and low: "float_below_one (500, 3)"
    by (simp_all add: float_below_one_def)
  have e1: "\<not> str_contains ''FAILED'' ?ok \<and> search_vtref ?ok = Some ''3.300''
      \<and> decimal_of ''3.300'' = Some (3300, 3) \<and> \<not> float_below_one (3300, 3)"
    using search_vtref_3300 decimal_of_3300 high by simp
  have 1: "is_connected_check ?c ?ok = Inr (str_contains (''Found '' @ ?c) ?ok)"
    using is_connected_classification
      [where captured = ?ok and connected_to = ?c and reading = "''3.300''" and d = "(3300, 3)"]
      e1
    by blast
  have e2: "\<not> str_contains ''FAILED'' ?absent \<and> search_vtref ?absent = Some ''3.300''
      \<and> decimal_of ''3.300'' = Some (3300, 3) \<and> \<not> float_below_one (3300, 3)"
    using search_vtref_3300 decimal_of_3300 high by simp
  have 2: "is_connected_check ?c ?absent = Inr (str_contains (''Found '' @ ?c) ?absent)"
    using is_connected_classification
      [where captured = ?absent and connected_to = ?c and reading = "''3.300''" and d = "(3300, 3)"]
      e2
    by blast
  have e3: "\<not> str_contains ''FAILED'' ?low \<and> search_vtref ?low = Some ''0.500''
      \<and> decimal_of ''0.500'' = Some (500, 3) \<and> float_below_one (500, 3)"
    using search_vtref_0500 decimal_of_0500 low by simp
  have 3: "is_connected_check ?c ?low
      = Inl (AdaLinkError (''JLink reference voltage is '' @ ''0.500'' @ ''V, it the chip powered?''))"
    using is_connected_classification
      [where captured = ?low and connected_to = ?c and reading = "''0.500''" and d = "(500, 3)"]
      e3
    by blast
  have e4: "\<not> str_contains ''FAILED'' ?novolt \<and> search_vtref ?novolt = None"
    using search_vtref_none by simp
  have 4: "is_connected_check ?c ?novolt = Inl (AdaLinkError ''JLink output lacks voltage information'')"
    using is_connected_classification [where captured = ?novolt and connected_to = ?c] e4
    by blast
  have e5: "str_contains ''FAILED'' ?failed" by simp
  have 5: "is_connected_check ?c ?failed
      = Inl (AdaLinkError ''Could not find a JLink programmer, is it connected?'')"
    using is_connected_classification [where captured = ?failed and connected_to = ?c] e5
    by blast
  have e6: "create_programmer (answering_device False) [CreateProgrammer (programmer two_reads_args)]
        = Inr ()
      \<and> is_connected (answering_device False)
          [CreateProgrammer (programmer two_reads_args), IsConnected] = Inr False"
    by (simp add: answering_device_def)
  have 6: "Core_callback ''samd21'' (answering_device False) two_reads_args []
      = (Inl (AdaLinkError (''Could not find '' @ ''samd21'' @ '', is it connected?'')),
         [CreateProgrammer (programmer two_reads_args), IsConnected])"
    using is_connected_classification
      [where dev = "answering_device False" and a = two_reads_args and name = "''samd21''"] e6
    by blast
  from 1 2 3 4 5 6 show ?thesis
    by (simp add: two_reads_args_def)
qed

text \<open>
  Claim C4 as stated fails. With no found token in the output, a reading of 0.500 V ends
  in the low voltage failure and an output with no reading at all ends in the failure
  for the missing voltage, not in the failure for a device that is not connected. With
  the found token and a reading of 0.500 V, an output that also holds \<^verbatim>\<open>FAILED\<close> ends in
  the failure for a programmer that is not connected.
\<close>

theorem found_token_decides_last:
  "\<not> str_contains (''Found '' @ ''Cortex-M0 r0p1, Little endian'') ''VTref=0.500V''
   \<and> is_connected_check ''Cortex-M0 r0p1, Little endian'' ''VTref=0.500V''
     = Inl (AdaLinkError ''JLink reference voltage is 0.500V, it the chip powered?'')
   \<and> \<not> str_contains (''Found '' @ ''Cortex-M0 r0p1, Little endian'') ''J-Link>''
   \<and> is_connected_check ''Cortex-M0 r0p1, Little endian'' ''J-Link>''
     = Inl (AdaLinkError ''JLink output lacks voltage information'')
   \<and> str_contains (''Found '' @ ''Cortex-M0 r0p1, Little endian'')
       (''Found Cortex-M0 r0p1, Little endian. VTref=0.500V Downloading...FAILED'')
   \<and> is_connected_check ''Cortex-M0 r0p1, Little endian''
       (''Found Cortex-M0 r0p1, Little endian. VTref=0.500V Downloading...FAILED'')
     = Inl (AdaLinkError ''Could not find a JLink programmer, is it connected?'')"
  by (simp add: is_connected_check_def match_vtref_def is_voltage_char_def is_digit_def
      decimal_of_def float_below_one_def)

subsection \<open>C8: paths in the script\<close>

text \<open>
  Claim C8 at a path with a double quote and at a path with a newline, for the JLink
  programmer. \<^verbatim>\<open>JLink.program\<close> puts the path between double quotes and changes nothing
  in it. The quote inside the path ends the quoted argument early, and the newline
  splits the load command over two lines of the script: six lines for five commands.
\<close>

theorem jlink_program_quote_in_path:
  \<open>JLink_program_commands (\<lambda>p. p) [''/fw/a"b.hex''] [(''/fw/c"d.bin'', 0x2000)]
     = [''r'', ''loadfile "/fw/a"b.hex"'', ''loadbin "/fw/c"d.bin" 0x00002000'', ''r'', ''g'', ''q'']
   \<and> splitlines (str_join [CHR 0x0A]
         (JLink_program_commands (\<lambda>p. p) [''/fw/a'' @ [CHR 0x0A] @ ''b.hex''] []))
     = [''r'', ''loadfile "/fw/a'', ''b.hex"'', ''r'', ''g'', ''q'']\<close>
  by (simp add: JLink_program_commands_def fmt_08X_0x2000 splitlines_def is_linebreak_def)

subsection \<open>C6: the timeout of a run\<close>

text \<open>
  Claim C6, as the code has it. With a bound of \<open>t\<close> seconds that expires before JLinkExe
  exits, \<^verbatim>\<open>run_filename\<close> returns no output: an exception leaves it, and the child is
  left running, since the method calls nothing on it after \<^verbatim>\<open>communicate\<close>. Within the
  bound the output is returned and the child has exited. The value \<^verbatim>\<open>None\<close> disables
  the bound. Zero and negative values are bounds like any other: they expire at once and
  do not stand for no bound.
\<close>

theorem run_filename_timeout:
  "(t < int (proc_duration (jlink_exe self script)) \<longrightarrow>
      (\<exists>e. fst (JLink_run_filename self script (Some t)) = Inl e)
      \<and> snd (JLink_run_filename self script (Some t)) = Running)
   \<and> (int (proc_duration (jlink_exe self script)) \<le> t \<longrightarrow>
      JLink_run_filename self script (Some t) = (Inr (proc_output (jlink_exe self script)), Exited))
   \<and> JLink_run_filename self script None = (Inr (proc_output (jlink_exe self script)), Exited)
   \<and> (t \<le> 0 \<and> 0 < proc_duration (jlink_exe self script) \<longrightarrow>
      JLink_run_filename self script (Some t) \<noteq> JLink_run_filename self script None)"
  by (simp add: JLink_run_filename_def communicate_def Let_def)

text \<open>A JLinkExe that needs 120 seconds, run with a bound of 60 seconds and with none.\<close>

theorem run_filename_timeout_witness:
  "(60 :: int) < int (proc_duration
       (jlink_exe \<lparr>connected = ''Cortex-M0 r0p1, Little endian'',
          jlink_exe = (\<lambda>script. \<lparr>proc_output = ''J-Link>'', proc_duration = 120\<rparr>)\<rparr> ''erase''))
   \<and> snd (JLink_run_filename
         \<lparr>connected = ''Cortex-M0 r0p1, Little endian'',
          jlink_exe = (\<lambda>script. \<lparr>proc_output = ''J-Link>'', proc_duration = 120\<rparr>)\<rparr>
         ''erase'' (Some 60))
     = Running
   \<and> fst (JLink_run_filename
         \<lparr>connected = ''Cortex-M0 r0p1, Little endian'',
          jlink_exe = (\<lambda>script. \<lparr>proc_output = ''J-Link>'', proc_duration = 120\<rparr>)\<rparr>
         ''erase'' (Some 60))
     \<noteq> Inr ''J-Link>''
   \<and> JLink_run_filename
         \<lparr>connected = ''Cortex-M0 r0p1, Little endian'',
          jlink_exe = (\<lambda>script. \<lparr>proc_output = ''J-Link>'', proc_duration = 120\<rparr>)\<rparr>
         ''erase'' None
     = (Inr ''J-Link>'', Exited)"
  using run_filename_timeout
    [of 60 "\<lparr>connected = ''Cortex-M0 r0p1, Little endian'',
          jlink_exe = (\<lambda>script. \<lparr>proc_output = ''J-Link>'', proc_duration = 120\<rparr>)\<rparr>" "''erase''"]
  by auto

text \<open>
  Claim C6 as stated fails: after the bound of 60 seconds has expired on a JLinkExe that
  needs 120 seconds, the child is still running.
\<close>

theorem timed_out_process_left_running:
  "JLink_run_filename
       \<lparr>connected = ''Cortex-M0 r0p1, Little endian'',
        jlink_exe = (\<lambda>script. \<lparr>proc_output = ''J-Link>'', proc_duration = 120\<rparr>)\<rparr>
       ''erase'' (Some 60)
     = (Inl TimeoutExpired, Running)"
  by (simp add: JLink_run_filename_def communicate_def)

subsection \<open>C7: a failure at the entry point\<close>

lemma callback_not_connected:
  "Core_callback ''samd21'' (answering_device False) two_reads_args []
     = (Inl (AdaLinkError ''Could not find samd21, is it connected?''),
        [CreateProgrammer ''jlink'', IsConnected])"
  by (simp add: Core_callback_def and_then_def invoke_def raises_def answering_device_def
      two_reads_args_def)

text \<open>
  Claim C7, as the code has it. When the callback of the core raises an \<^verbatim>\<open>AdaLinkError\<close>,
  \<^verbatim>\<open>main\<close> prints its message and returns; nothing is called after the print. \<^verbatim>\<open>main\<close>
  sets no exit status, so the interpreter ends with status zero.
\<close>

theorem main_prints_and_returns:
  assumes "callback calls = (Inl (AdaLinkError message), made)"
  shows "main (Some callback) calls = (Inr (), made @ [Print message])
       \<and> exit_status (fst (main (Some callback) calls)) = 0"
  using assms by (simp add: main_def print_def invoke_def exit_status_def)

text \<open>The board is not connected: the message is printed last and the status is zero.\<close>

theorem main_prints_and_returns_witness:
  "main (Some (Core_callback ''samd21'' (answering_device False) two_reads_args)) []
     = (Inr (),
        [CreateProgrammer ''jlink'', IsConnected, Print ''Could not find samd21, is it connected?''])
   \<and> exit_status
        (fst (main (Some (Core_callback ''samd21'' (answering_device False) two_reads_args)) []))
     = 0"
  using main_prints_and_returns
    [of "Core_callback ''samd21'' (answering_device False) two_reads_args" "[]"
        "''Could not find samd21, is it connected?''" "[CreateProgrammer ''jlink'', IsConnected]"]
    callback_not_connected
  by (simp add: exit_status_def)

text \<open>
  Claim C7 as stated fails: for a failure of the connection check that reaches \<^verbatim>\<open>main\<close>
  the message is printed and the exit status is zero.
\<close>

theorem main_exit_status_zero:
  "exit_status (fst (main (Some (raises (AdaLinkError ''JLink output lacks voltage information''))) []))
     = 0
   \<and> snd (main (Some (raises (AdaLinkError ''JLink output lacks voltage information''))) [])
     = [Print ''JLink output lacks voltage information'']"
  by (simp add: main_def raises_def print_def invoke_def exit_status_def)

subsection \<open>C10: the check of the read options\<close>

lemma and_then_assoc: "and_then (and_then m f) g = and_then m (\<lambda>x. and_then (f x) g)"
  by (rule ext) (simp add: and_then_def split: prod.splits sum.splits)

lemma and_then_returns: "and_then (returns x) f = f x"
  by (rule ext) (simp add: and_then_def returns_def)

lemma and_then_raises: "and_then (raises e) f = raises e"
  by (rule ext) (simp add: and_then_def raises_def)

lemma Core_callback_split:
  "Core_callback name dev a = and_then (callback_steps name dev a) (\<lambda>_. callback_reads dev a)"
  by (simp add: Core_callback_def callback_steps_def callback_reads_def and_then_assoc Let_def)

lemma callback_reads_ambiguous:
  "1 < length (filter (\<lambda>x. x \<noteq> None) [read_mem_8 a, read_mem_16 a, read_mem_32 a]) \<Longrightarrow>
   callback_reads dev a calls
     = (Inl (AdaLinkError ''Only one read memory command can be specified at a time.''), calls)"
  by (simp add: callback_reads_def Let_def and_then_raises raises_def)

lemma callback_reads_none:
  "callback_reads dev (a\<lparr>read_mem_8 := None, read_mem_16 := None, read_mem_32 := None\<rparr>) calls
     = (Inr (), calls)"
  by (simp add: callback_reads_def and_then_returns returns_def)

lemma callback_steps_reads:
  "callback_steps name dev (a\<lparr>read_mem_8 := r8, read_mem_16 := r16, read_mem_32 := r32\<rparr>)
     = callback_steps name dev a"
  by (simp add: callback_steps_def)

lemma callback_without_reads:
  "Core_callback name dev (a\<lparr>read_mem_8 := None, read_mem_16 := None, read_mem_32 := None\<rparr>)
     = callback_steps name dev a"
  by (rule ext)
    (simp add: Core_callback_split callback_steps_reads callback_reads_none and_then_def
      split: prod.splits sum.splits)

lemma callback_steps_calls:
  "\<exists>new. snd (callback_steps name dev a calls) = calls @ new
     \<and> (\<forall>c \<in> set new. \<not> is_readmem c \<and> (\<forall>line. c \<noteq> Print line))"
  by (simp add: callback_steps_def and_then_def invoke_def returns_def raises_def Let_def
      split: prod.splits sum.splits)

lemma callback_steps_all_return:
  assumes "\<forall>h. create_programmer dev h = Inr () \<and> is_connected dev h = Inr True
      \<and> wipe_flash dev h = Inr () \<and> program dev h = Inr () \<and> info_report dev h = Inr ()"
  shows "callback_steps name dev a calls
     = (Inr (),
        calls @ [CreateProgrammer (programmer a), IsConnected]
          @ (if wipe a then [Wipe] else [])
          @ (if or_empty (program_hex a) \<noteq> [] \<or> or_empty (program_bin a) \<noteq> []
             then [Program (or_empty (program_hex a)) (or_empty (program_bin a))]
             else [])
          @ (if info a then [Info] else []))"
  using assms
  by (simp add: callback_steps_def and_then_def invoke_def returns_def raises_def Let_def)

text \<open>
  Claim C10. When more than one of the three read options is given, the callback does
  what it does without any read option, the steps of lines 51 to 67 in their order
  (create the programmer, connection check, wipe if asked, program if files were given,
  info report if asked), and where those steps return it then raises the \<^verbatim>\<open>AdaLinkError\<close>
  \<^verbatim>\<open>Only one read memory command can be specified at a time.\<close>; where one of them
  raises, that exception leaves the callback. In either case the calls it adds hold no
  memory read for a read option and no printed value. With a programmer and core whose
  steps all return, the calls are exactly the steps asked for, then the error.
\<close>

theorem ambiguous_read_checked_last:
  assumes "1 < length (filter (\<lambda>x. x \<noteq> None) [read_mem_8 a, read_mem_16 a, read_mem_32 a])"
  shows "Core_callback name dev a calls
           = (case callback_steps name dev a calls of
                (Inl e, made) \<Rightarrow> (Inl e, made)
              | (Inr u, made) \<Rightarrow>
                  (Inl (AdaLinkError ''Only one read memory command can be specified at a time.''),
                   made))
         \<and> Core_callback name dev
             (a\<lparr>read_mem_8 := None, read_mem_16 := None, read_mem_32 := None\<rparr>) calls
           = callback_steps name dev a calls
         \<and> (\<exists>new. snd (Core_callback name dev a calls) = calls @ new
               \<and> (\<forall>c \<in> set new. \<not> is_readmem c \<and> (\<forall>line. c \<noteq> Print line)))
         \<and> ((\<forall>h. create_programmer dev h = Inr () \<and> is_connected dev h = Inr True
                \<and> wipe_flash dev h = Inr () \<and> program dev h = Inr ()
                \<and> info_report dev h = Inr ())
              \<longrightarrow> Core_callback name dev a calls
                = (Inl (AdaLinkError ''Only one read memory command can be specified at a time.''),
                   calls @ [CreateProgrammer (programmer a), IsConnected]
                     @ (if wipe a then [Wipe] else [])
                     @ (if or_empty (program_hex a) \<noteq> []
                           \<or> or_empty (program_bin a) \<noteq> []
                        then [Program (or_empty (program_hex a))
                                (or_empty (program_bin a))]
                        else [])
                     @ (if info a then [Info] else [])))"
proof -
  let ?err = "AdaLinkError ''Only one read memory command can be specified at a time.''"
  have whole: "Core_callback name dev a calls
      = (case callback_steps name dev a calls of
           (Inl e, made) \<Rightarrow> (Inl e, made)
         | (Inr u, made) \<Rightarrow> (Inl ?err, made))"
    using assms
    by (simp add: Core_callback_split and_then_def callback_reads_ambiguous
        split: prod.splits sum.splits)
  have same: "snd (Core_callback name dev a calls) = snd (callback_steps name dev a calls)"
    unfolding whole by (simp split: prod.splits sum.splits)
  have quiet: "\<exists>new. snd (Core_callback name dev a calls) = calls @ new
      \<and> (\<forall>c \<in> set new. \<not> is_readmem c \<and> (\<forall>line. c \<noteq> Print line))"
    unfolding same by (rule callback_steps_calls)
  have returned: "Core_callback name dev a calls
        = (Inl ?err,
           calls @ [CreateProgrammer (programmer a), IsConnected]
             @ (if wipe a then [Wipe] else [])
             @ (if or_empty (program_hex a) \<noteq> [] \<or> or_empty (program_bin a) \<noteq> []
                then [Program (or_empty (program_hex a)) (or_empty (program_bin a))]
                else [])
             @ (if info a then [Info] else []))"
    if "\<forall>h. create_programmer dev h = Inr () \<and> is_connected dev h = Inr True
        \<and> wipe_flash dev h = Inr () \<and> program dev h = Inr () \<and> info_report dev h = Inr ()"
    unfolding whole callback_steps_all_return [OF that] by simp
  from whole quiet returned show ?thesis
    by (simp only: callback_without_reads) blast
qed

text \<open>
  A wipe, one hex file, the info report and two read options: all four steps run, then
  the error; without the read options the same calls are made and the callback returns.
\<close>

theorem ambiguous_read_checked_last_witness:
  "1 < length (filter (\<lambda>x. x \<noteq> None)
        [read_mem_8 two_reads_args, read_mem_16 two_reads_args, read_mem_32 two_reads_args])
   \<and> Core_callback ''samd21'' (answering_device True) two_reads_args []
     = (Inl (AdaLinkError ''Only one read memory command can be specified at a time.''),
        [CreateProgrammer ''jlink'', IsConnected, Wipe, Program [''/fw/img_a.hex''] [], Info])
   \<and> Core_callback ''samd21'' (answering_device True)
       (two_reads_args\<lparr>read_mem_8 := None, read_mem_16 := None, read_mem_32 := None\<rparr>) []
     = (Inr (),
        [CreateProgrammer ''jlink'', IsConnected, Wipe, Program [''/fw/img_a.hex''] [], Info])"
proof -
  have amb: "1 < length (filter (\<lambda>x. x \<noteq> None)
      [read_mem_8 two_reads_args, read_mem_16 two_reads_args, read_mem_32 two_reads_args])"
    by (simp add: two_reads_args_def)
  have ok: "\<forall>h. create_programmer (answering_device True) h = Inr ()
      \<and> is_connected (answering_device True) h = Inr True
      \<and> wipe_flash (answering_device True) h = Inr ()
      \<and> program (answering_device True) h = Inr ()
      \<and> info_report (answering_device True) h = Inr ()"
    by (simp add: answering_device_def)
  note inst = ambiguous_read_checked_last
    [OF amb, of "''samd21''" "answering_device True" "[]"]
  from inst ok have run: "Core_callback ''samd21'' (answering_device True) two_reads_args []
      = (Inl (AdaLinkError ''Only one read memory command can be specified at a time.''),
         [] @ [CreateProgrammer (programmer two_reads_args), IsConnected]
           @ (if wipe two_reads_args then [Wipe] else [])
           @ (if or_empty (program_hex two_reads_args) \<noteq> []
                 \<or> or_empty (program_bin two_reads_args) \<noteq> []
              then [Program (or_empty (program_hex two_reads_args))
                      (or_empty (program_bin two_reads_args))]
              else [])
           @ (if info two_reads_args then [Info] else []))"
    by blast
  from inst have "Core_callback ''samd21'' (answering_device True)
       (two_reads_args\<lparr>read_mem_8 := None, read_mem_16 := None, read_mem_32 := None\<rparr>) []
     = callback_steps ''samd21'' (answering_device True) two_reads_args []"
    by blast
  moreover have "callback_steps ''samd21'' (answering_device True) two_reads_args []
     = (Inr (),
        [CreateProgrammer ''jlink'', IsConnected, Wipe, Program [''/fw/img_a.hex''] [], Info])"
    by (simp add: callback_steps_def and_then_def invoke_def returns_def raises_def Let_def
        answering_device_def two_reads_args_def or_empty_def)
  ultimately show ?thesis
    using amb run by (simp add: two_reads_args_def or_empty_def)
qed

end
